theory Spec2Isabelle
  imports Complex_Main "HOL-Library.Word"
begin

unbundle bit_operations_syntax

section \<open>gpsdate.c: setting the clock from the first trustworthy gpsd fix\<close>

text \<open>
  The program talks to gpsd, to the kernel clock, to syslog and to the process table. The
  embedding keeps every function of \<^verbatim>\<open>gpsdate.c\<close> as a function of the same name that
  passes the process state explicitly and appends each library call it makes to a trace.
  What the outside world answers is an input:
  \<^item> the results of the successive \<^verbatim>\<open>gps_open\<close> calls are a list of return codes;
  \<^item> what the successive \<^verbatim>\<open>gps_waiting\<close>/\<^verbatim>\<open>gps_read\<close> pairs deliver is a list of feed events;
  \<^item> the answer of \<^verbatim>\<open>settimeofday\<close>, the text of \<^verbatim>\<open>ctime\<close>, the answers to the calls of
    \<^verbatim>\<open>osmo_daemonize\<close> and the constants of the system headers are fields of a record of
    the platform.
  A run on a finite script ends in one of four ways: the function returns, the process
  exits with a code, a library call waits for an answer the script no longer holds (the
  process is still running), or the program reads a variable that was never assigned.
\<close>

subsection \<open>Data\<close>

text \<open>\<^verbatim>\<open>struct timeval\<close>.\<close>

record timeval =
  tv_sec :: int
  tv_usec :: int

text \<open>
  A C \<^verbatim>\<open>double\<close>: a finite value, read as the real number it denotes, an infinity or a
  NaN. Every finite \<^verbatim>\<open>double\<close> is a \<^verbatim>\<open>Finite\<close> value; what is shown for all of these holds
  for the representable ones.
\<close>

datatype double = Finite real | PlusInfinity | MinusInfinity | NaN

text \<open>
  The four members of \<^verbatim>\<open>struct gps_data_t\<close> that the program reads: the mask \<^verbatim>\<open>set\<close>
  (a 64-bit \<^verbatim>\<open>gps_mask_t\<close>, printed with \<^verbatim>\<open>PRIu64\<close>), \<^verbatim>\<open>fix.time\<close> (a \<^verbatim>\<open>double\<close>: seconds since
  the epoch with a fractional part), \<^verbatim>\<open>status\<close> and \<^verbatim>\<open>satellites_used\<close> (both \<^verbatim>\<open>int\<close>).
\<close>

record gps_data_t =
  gps_set :: "64 word"
  fix_time :: double
  status :: int
  satellites_used :: int

datatype priority = LOG_ERR | LOG_NOTICE | LOG_INFO | LOG_DEBUG

text \<open>
  The messages of the program, one constructor per format string, with the arguments the
  format receives. \<^verbatim>\<open>Set_rtc_error\<close> and \<^verbatim>\<open>No_gpsd\<close> print \<^verbatim>\<open>errno\<close> and its text as they
  are at that moment.
\<close>

datatype message =
    Ctime_failed
  | Report string "64 word" int int
  | Discarding_no_fix string
  | Discarding_zero_sats string
  | Set_rtc_ok string
  | Set_rtc_error
  | Attempt int string
  | No_gpsd
  | Reconnected
  | Connection_closed int

datatype stdio = Stdin | Stdout | Stderr

text \<open>The library calls a run can make, in the order of the source.\<close>

datatype action =
    Openlog
  | Printf message
  | Syslog priority message
  | Gps_open string string
  | Gps_stream
  | Gps_waiting int
  | Gps_read
  | Gps_close
  | Settimeofday timeval
  | Sleep int
  | Getppid
  | Fork
  | Umask int
  | Setsid
  | Chdir string
  | Freopen string string stdio
  | Closelog

text \<open>
  How a call ends. \<^verbatim>\<open>Exited\<close> is \<^verbatim>\<open>exit(code)\<close>; \<^verbatim>\<open>Pending\<close> is a library call whose answer
  the script does not hold, so the process is still inside it; \<^verbatim>\<open>Undefined\<close> is the read of
  an unassigned automatic variable.
\<close>

datatype 'a outcome = Return 'a | Exited int | Pending | Undefined

text \<open>
  One \<^verbatim>\<open>gps_waiting\<close> call and the \<^verbatim>\<open>gps_read\<close> that follows it: \<^verbatim>\<open>NoData\<close> is
  \<^verbatim>\<open>gps_waiting\<close> answering false; \<^verbatim>\<open>Data rc g\<close> is \<^verbatim>\<open>gps_waiting\<close> answering true and
  \<^verbatim>\<open>gps_read\<close> returning \<^verbatim>\<open>rc\<close> with the structure holding \<^verbatim>\<open>g\<close> afterwards.
\<close>

datatype feed_event = NoData | Data int gps_data_t

text \<open>
  What the system the program runs on fixes: the \<^verbatim>\<open>TIME_SET\<close> bit and the default port of
  \<^verbatim>\<open>gps.h\<close>, \<^verbatim>\<open>INT_MAX\<close> and \<^verbatim>\<open>EEXIST\<close>, the least and the greatest value of \<^verbatim>\<open>time_t\<close>, the
  text \<^verbatim>\<open>ctime\<close> gives for a time (\<^verbatim>\<open>None\<close> for a null pointer), the return code of
  \<^verbatim>\<open>settimeofday\<close> for a value, and what the calls of \<^verbatim>\<open>osmo_daemonize\<close>, each made at most
  once, return. \<^verbatim>\<open>time_t_overflow\<close> is what the compiled conversion of a \<^verbatim>\<open>double\<close> to
  \<^verbatim>\<open>time_t\<close> stores where C does not define the result; x86-64 stores the least \<^verbatim>\<open>time_t\<close>
  there. None of them is in the repository, so every function takes the record as a
  parameter.
\<close>

record platform =
  TIME_SET :: "64 word"
  DEFAULT_GPSD_PORT :: string
  INT_MAX :: int
  EEXIST :: int
  TIME_T_MIN :: int
  TIME_T_MAX :: int
  time_t_overflow :: "double \<Rightarrow> int"
  ctime :: "int \<Rightarrow> string option"
  settimeofday :: "timeval \<Rightarrow> int"
  getppid :: int
  fork :: int
  setsid :: int
  chdir :: "string \<Rightarrow> int"

text \<open>The process: the global \<^verbatim>\<open>gpsdata\<close> and the calls made so far.\<close>

record proc =
  gpsdata :: gps_data_t
  trace :: "action list"

datatype state = S_CONNECTED | S_RECONNECT

text \<open>The variables of \<^verbatim>\<open>main\<close> that option parsing sets, and the global \<^verbatim>\<open>no_detach\<close>.\<close>

record config =
  host :: string
  port :: string
  num_retries :: int
  retry_sleep :: int
  no_detach :: int

text \<open>
  One result of \<^verbatim>\<open>getopt_long\<close>: the option character, with \<^verbatim>\<open>atoi(optarg)\<close> for the two
  options that take a number. \<^verbatim>\<open>Opt_other\<close> is any character the \<^verbatim>\<open>switch\<close> has no case for.
  \<^verbatim>\<open>atoi\<close> returns an \<^verbatim>\<open>int\<close>, so its values are at most \<^verbatim>\<open>INT_MAX\<close>; a theorem that needs
  the bound states it.
\<close>

datatype getopt = Opt_n int | Opt_s int | Opt_d | Opt_other

subsection \<open>Constants\<close>

definition NUM_RETRIES :: int where
  "NUM_RETRIES = 60"

definition RETRY_SLEEP :: int where
  "RETRY_SLEEP = 1"

text \<open>
  Modelled from the spec: \<^verbatim>\<open>stdlib.h\<close> is not in the repository; the spec's exit codes are
  0 on a successful clock commit and non-zero on startup-retry exhaustion or clock-commit
  failure, which are the values POSIX gives \<^verbatim>\<open>EXIT_SUCCESS\<close> and \<^verbatim>\<open>EXIT_FAILURE\<close>.
\<close>

definition EXIT_SUCCESS :: int where
  "EXIT_SUCCESS = 0"

definition EXIT_FAILURE :: int where
  "EXIT_FAILURE = 1"

subsection \<open>Helpers of the embedding\<close>

definition emit :: "action \<Rightarrow> proc \<Rightarrow> proc" where
  "emit a w = w\<lparr>trace := trace w @ [a]\<rparr>"

text \<open>
  The conversion of \<^verbatim>\<open>tv.tv_sec = gpsdata->fix.time\<close>. C converts a finite floating value
  to an integer type by discarding the fractional part, when the whole part fits the type.
  For a whole part outside \<^verbatim>\<open>time_t\<close>, an infinity or a NaN the language defines no result,
  and the program stores what the platform's conversion yields.
\<close>

definition trunc_toward_zero :: "real \<Rightarrow> int" where
  "trunc_toward_zero x = (if x < 0 then \<lceil>x\<rceil> else \<lfloor>x\<rfloor>)"

definition double_to_time_t :: "platform \<Rightarrow> double \<Rightarrow> int" where
  "double_to_time_t p d =
     (case d of
        Finite x \<Rightarrow>
          if TIME_T_MIN p \<le> trunc_toward_zero x \<and> trunc_toward_zero x \<le> TIME_T_MAX p
          then trunc_toward_zero x
          else time_t_overflow p d
      | _ \<Rightarrow> time_t_overflow p d)"

text \<open>
  \<^verbatim>\<open>i++\<close> on an \<^verbatim>\<open>int\<close>, with the wrap-around from \<^verbatim>\<open>INT_MAX\<close> to \<^verbatim>\<open>INT_MIN\<close> written out, and
  the conversion of an \<^verbatim>\<open>int\<close> argument to the \<^verbatim>\<open>unsigned int\<close> parameter of \<^verbatim>\<open>sleep\<close>: a
  negative value has \<^verbatim>\<open>UINT_MAX + 1\<close>, which is twice \<^verbatim>\<open>INT_MAX + 1\<close>, added to it.
\<close>

definition int_inc :: "platform \<Rightarrow> int \<Rightarrow> int" where
  "int_inc p i = (if i = INT_MAX p then - INT_MAX p - 1 else i + 1)"

definition unsigned_int :: "platform \<Rightarrow> int \<Rightarrow> int" where
  "unsigned_int p x = (if 0 \<le> x then x else x + 2 * (INT_MAX p + 1))"

text \<open>\<^verbatim>\<open>lf = strchr(timestr, '\n'); if (lf) *lf = '\0';\<close>\<close>

definition strip_lf :: "string \<Rightarrow> string" where
  "strip_lf s = takeWhile (\<lambda>c. c \<noteq> CHR 0x0A) s"

text \<open>Observations on a trace.\<close>

fun clock_sets :: "action list \<Rightarrow> timeval list" where
  "clock_sets [] = []"
| "clock_sets (Settimeofday tv # as) = tv # clock_sets as"
| "clock_sets (a # as) = clock_sets as"

fun sleeps :: "action list \<Rightarrow> int list" where
  "sleeps [] = []"
| "sleeps (Sleep n # as) = n # sleeps as"
| "sleeps (a # as) = sleeps as"

fun connects :: "action list \<Rightarrow> nat" where
  "connects [] = 0"
| "connects (Gps_open h p # as) = Suc (connects as)"
| "connects (a # as) = connects as"

text \<open>
  The calls of a run that ends in a clock commit: calls that do not set the clock, then
  \<^verbatim>\<open>settimeofday\<close>, \<^verbatim>\<open>gps_close\<close>, the notice with the time text or the error line, and
  \<^verbatim>\<open>closelog\<close>; the exit code goes by what \<^verbatim>\<open>settimeofday\<close> answered.
\<close>

definition commit_run :: "platform \<Rightarrow> action list \<Rightarrow> int \<Rightarrow> bool" where
  "commit_run p new code \<longleftrightarrow>
     (\<exists>pre tv. clock_sets pre = [] \<and>
        new = pre @
          [Settimeofday tv, Gps_close,
           if settimeofday p tv = 0
           then Syslog LOG_NOTICE
                  (Set_rtc_ok (strip_lf (case ctime p (tv_sec tv) of
                                           None \<Rightarrow> ''<unknown>'' | Some s \<Rightarrow> s)))
           else Syslog LOG_ERR Set_rtc_error,
           Closelog] \<and>
        code = (if settimeofday p tv = 0 then EXIT_SUCCESS else EXIT_FAILURE))"

subsection \<open>The functions of the source\<close>

definition callback :: "platform \<Rightarrow> proc \<Rightarrow> unit outcome \<times> proc" where
  "callback p w =
    (let g = gpsdata w in
     if gps_set g AND TIME_SET p = 0 then (Return (), w)
     else
       let tv = \<lparr>tv_sec = double_to_time_t p (fix_time g), tv_usec = 0\<rparr>;
           time = tv_sec tv;
           r = ctime p time;
           w1 = (if r = None then emit (Syslog LOG_ERR Ctime_failed) w else w);
           timestr = strip_lf (case r of None \<Rightarrow> ''<unknown>'' | Some s \<Rightarrow> s);
           w2 = emit (Syslog LOG_DEBUG
                       (Report timestr (gps_set g) (status g) (satellites_used g))) w1
       in
         if status g = 0 then
           (Return (), emit (Syslog LOG_INFO (Discarding_no_fix timestr)) w2)
         else if satellites_used g = 0 then
           (Return (), emit (Syslog LOG_INFO (Discarding_zero_sats timestr)) w2)
         else
           let rc = settimeofday p tv;
               w3 = emit Gps_close (emit (Settimeofday tv) w2)
           in
             if rc = 0 then
               (Exited EXIT_SUCCESS,
                emit Closelog (emit (Syslog LOG_NOTICE (Set_rtc_ok timestr)) w3))
             else
               (Exited EXIT_FAILURE,
                emit Closelog (emit (Syslog LOG_ERR Set_rtc_error) w3)))"

text \<open>
  \<^verbatim>\<open>osmo_daemonize\<close>, seen from the process that calls it. \<^verbatim>\<open>fork\<close> answers a negative
  value when it fails, the child's pid in the parent, which then exits with status 0, and
  0 in the child, which has the parent's state and goes on from there. \<^verbatim>\<open>stderr\<close> is a
  macro, so the three \<^verbatim>\<open>freopen\<close> calls are compiled in; their results are not read.
\<close>

definition osmo_daemonize :: "platform \<Rightarrow> proc \<Rightarrow> int outcome \<times> proc" where
  "osmo_daemonize p w =
     (let w1 = emit Getppid w in
      if getppid p = 1 then (Return (- EEXIST p), w1)
      else
        let pid = fork p;
            w2 = emit Fork w1
        in
          if pid < 0 then (Return pid, w2)
          else if pid > 0 then (Exited 0, w2)
          else
            let w3 = emit (Umask 0) w2;
                sid = setsid p;
                w4 = emit Setsid w3
            in
              if sid < 0 then (Return sid, w4)
              else
                let rc = chdir p ''/tmp'';
                    w5 = emit (Chdir ''/tmp'') w4
                in
                  if rc < 0 then (Return rc, w5)
                  else
                    (Return 0,
                     emit (Freopen ''/dev/null'' ''w'' Stderr)
                       (emit (Freopen ''/dev/null'' ''w'' Stdout)
                         (emit (Freopen ''/dev/null'' ''r'' Stdin) w5))))"

text \<open>
  The loop of \<^verbatim>\<open>my_gps_mainloop\<close>, one iteration per feed event. The hook is a parameter,
  as in the source; it works on the process and cannot reach the feed.
\<close>

fun my_gps_mainloop ::
  "int \<Rightarrow> (proc \<Rightarrow> unit outcome \<times> proc) \<Rightarrow> feed_event list \<Rightarrow> proc
     \<Rightarrow> int outcome \<times> feed_event list \<times> proc" where
  "my_gps_mainloop timeout hook [] w = (Pending, [], emit (Gps_waiting timeout) w)"
| "my_gps_mainloop timeout hook (NoData # rest) w =
     (Return (- 1), rest, emit (Gps_waiting timeout) w)"
| "my_gps_mainloop timeout hook (Data rc g # rest) w =
     (let w1 = (emit Gps_read (emit (Gps_waiting timeout) w))\<lparr>gpsdata := g\<rparr> in
      if rc < 0 then (Return rc, rest, w1)
      else
        (case hook w1 of
           (Return u, w2) \<Rightarrow> my_gps_mainloop timeout hook rest w2
         | (Exited code, w2) \<Rightarrow> (Exited code, rest, w2)
         | (Pending, w2) \<Rightarrow> (Pending, rest, w2)
         | (Undefined, w2) \<Rightarrow> (Undefined, rest, w2)))"

definition attempt_reconnect ::
  "string \<Rightarrow> string \<Rightarrow> int list \<Rightarrow> proc \<Rightarrow> int outcome \<times> int list \<times> proc" where
  "attempt_reconnect h pt opens w =
     (case opens of
        [] \<Rightarrow> (Pending, [], emit (Gps_open h pt) w)
      | rc # rest \<Rightarrow>
          let w1 = emit (Gps_open h pt) w in
          if rc \<noteq> 0 then (Return (- 1), rest, w1)
          else (Return 0, rest, emit Gps_stream (emit (Syslog LOG_INFO Reconnected) w1)))"

text \<open>The \<^verbatim>\<open>switch\<close> of the option loop, and the two positional arguments.\<close>

fun set_option :: "config \<Rightarrow> getopt \<Rightarrow> config" where
  "set_option c (Opt_n v) = c\<lparr>num_retries := v\<rparr>"
| "set_option c (Opt_s v) = c\<lparr>retry_sleep := v\<rparr>"
| "set_option c Opt_d = c\<lparr>no_detach := 1\<rparr>"
| "set_option c Opt_other = c"

definition parse_args :: "platform \<Rightarrow> getopt list \<Rightarrow> string list \<Rightarrow> config" where
  "parse_args p opts args =
     (let c0 = \<lparr>host = ''localhost'', port = DEFAULT_GPSD_PORT p,
                num_retries = NUM_RETRIES, retry_sleep = RETRY_SLEEP, no_detach = 0\<rparr>;
          c1 = foldl set_option c0 opts;
          c2 = (case args of [] \<Rightarrow> c1 | h # _ \<Rightarrow> c1\<lparr>host := h\<rparr>)
      in case args of h # pt # _ \<Rightarrow> c2\<lparr>port := pt\<rparr> | _ \<Rightarrow> c2)"

text \<open>Each call of \<^verbatim>\<open>attempt_reconnect\<close> that returns has used one answer of the script.\<close>

lemma attempt_reconnect_consumes:
  "attempt_reconnect h pt opens w = (Return rc, opens', w') \<Longrightarrow> length opens' < length opens"
  by (auto simp: attempt_reconnect_def Let_def split: list.splits if_splits)

text \<open>
  The \<^verbatim>\<open>for\<close> loop of \<^verbatim>\<open>main\<close>, with its \<^verbatim>\<open>int\<close> counter. It returns the variable \<^verbatim>\<open>rc\<close>,
  which is \<^verbatim>\<open>None\<close> until the first assignment. Each turn that goes on has consumed one
  answer of the script, which is what the recursion ends by.
\<close>

function main_for ::
  "platform \<Rightarrow> config \<Rightarrow> int \<Rightarrow> int option \<Rightarrow> int list \<Rightarrow> proc
     \<Rightarrow> int option outcome \<times> int list \<times> proc" where
  "main_for p c i rc opens w =
     (if i \<le> num_retries c then
        (case attempt_reconnect (host c) (port c) opens
                (emit (Printf (Attempt i (host c))) w) of
           (Return r, opens', w') \<Rightarrow>
             if r \<ge> 0 then (Return (Some r), opens', w')
             else main_for p c (int_inc p i) (Some r) opens'
                    (emit (Sleep (unsigned_int p (retry_sleep c))) w')
         | (Exited code, opens', w') \<Rightarrow> (Exited code, opens', w')
         | (Pending, opens', w') \<Rightarrow> (Pending, opens', w')
         | (Undefined, opens', w') \<Rightarrow> (Undefined, opens', w'))
      else (Return rc, opens, w))"
  by pat_completeness auto
termination
  apply (relation "measure (\<lambda>(p, c, i, rc, opens, w). length opens)")
   apply simp
  apply (auto dest: attempt_reconnect_consumes [OF sym])
  done

declare main_for.simps [simp del]

text \<open>
  What the termination of the \<^verbatim>\<open>while\<close> loop of \<^verbatim>\<open>main\<close> rests on: a read loop that
  returns has consumed at least one feed event.
\<close>

lemma my_gps_mainloop_consumes:
  "my_gps_mainloop t hook fd w = (Return rc, fd', w') \<Longrightarrow> length fd' < length fd"
proof (induction t hook fd w rule: my_gps_mainloop.induct)
  case (1 timeout hook w)
  then show ?case by simp
next
  case (2 timeout hook rest w)
  then show ?case by simp
next
  case (3 timeout hook rc0 g rest w)
  show ?case
  proof (cases "rc0 < 0")
    case True
    with "3.prems" show ?thesis by (simp add: Let_def)
  next
    case False
    obtain oc w2 where h: "hook ((emit Gps_read (emit (Gps_waiting timeout) w))\<lparr>gpsdata := g\<rparr>) = (oc, w2)"
      by (cases "hook ((emit Gps_read (emit (Gps_waiting timeout) w))\<lparr>gpsdata := g\<rparr>)")
    show ?thesis
    proof (cases oc)
      case (Return u)
      with False h "3.prems" have "my_gps_mainloop timeout hook rest w2 = (Return rc, fd', w')"
        by (simp add: Let_def)
      with "3.IH" [OF refl False h [symmetric] Return] have "length fd' < length rest"
        by simp
      then show ?thesis by simp
    next
      case (Exited code)
      with False h "3.prems" show ?thesis by (simp add: Let_def)
    next
      case Pending
      with False h "3.prems" show ?thesis by (simp add: Let_def)
    next
      case Undefined
      with False h "3.prems" show ?thesis by (simp add: Let_def)
    qed
  qed
qed

text \<open>
  The \<^verbatim>\<open>while (1)\<close> loop of \<^verbatim>\<open>main\<close>, one equation per case of its \<^verbatim>\<open>switch\<close>.
\<close>

function main_while ::
  "platform \<Rightarrow> config \<Rightarrow> state \<Rightarrow> int list \<Rightarrow> feed_event list \<Rightarrow> proc
     \<Rightarrow> unit outcome \<times> proc" where
  "main_while p c S_CONNECTED opens fd w =
     (case my_gps_mainloop (INT_MAX p) (callback p) fd w of
        (Return rc, fd', w') \<Rightarrow>
          if rc < 1 then
            main_while p c S_RECONNECT opens fd'
              (emit Gps_close (emit (Syslog LOG_ERR (Connection_closed rc)) w'))
          else main_while p c S_CONNECTED opens fd' w'
      | (Exited code, fd', w') \<Rightarrow> (Exited code, w')
      | (Pending, fd', w') \<Rightarrow> (Pending, w')
      | (Undefined, fd', w') \<Rightarrow> (Undefined, w'))"
| "main_while p c S_RECONNECT opens fd w =
     (case attempt_reconnect (host c) (port c) opens w of
        (Return rc, opens', w') \<Rightarrow>
          if rc < 0 then
            main_while p c S_RECONNECT opens' fd (emit (Sleep (unsigned_int p RETRY_SLEEP)) w')
          else main_while p c S_CONNECTED opens' fd w'
      | (Exited code, opens', w') \<Rightarrow> (Exited code, w')
      | (Pending, opens', w') \<Rightarrow> (Pending, w')
      | (Undefined, opens', w') \<Rightarrow> (Undefined, w'))"
  by pat_completeness auto
termination
  apply (relation "measure (\<lambda>(p, c, st, opens, fd, w).
          2 * length opens + 2 * length fd + (if st = S_CONNECTED then 1 else 0))")
      apply simp
     apply (auto dest: my_gps_mainloop_consumes [OF sym] attempt_reconnect_consumes [OF sym])
  done

declare main_while.simps [simp del]

text \<open>
  \<^verbatim>\<open>main\<close>, from \<^verbatim>\<open>openlog\<close> on. The static \<^verbatim>\<open>gpsdata\<close> starts zeroed. After the \<^verbatim>\<open>for\<close>
  loop the test \<^verbatim>\<open>rc < 0\<close> reads \<^verbatim>\<open>rc\<close>, which no statement has assigned when the loop
  body never ran. \<^verbatim>\<open>main\<close> ignores the value \<^verbatim>\<open>osmo_daemonize\<close> returns. The statements
  after the \<^verbatim>\<open>while (1)\<close> loop cannot be reached and have no counterpart here.
\<close>

definition main ::
  "platform \<Rightarrow> getopt list \<Rightarrow> string list \<Rightarrow> int list \<Rightarrow> feed_event list
     \<Rightarrow> unit outcome \<times> proc" where
  "main p opts args opens fd =
     (let w0 = \<lparr>gpsdata = \<lparr>gps_set = 0, fix_time = Finite 0, status = 0,
                            satellites_used = 0\<rparr>,
                trace = [Openlog]\<rparr>;
          c = parse_args p opts args
      in case main_for p c 1 None opens w0 of
           (Return None, opens', w1) \<Rightarrow> (Undefined, w1)
         | (Return (Some rc), opens', w1) \<Rightarrow>
             if rc < 0 then
               (Exited EXIT_FAILURE, emit Closelog (emit (Syslog LOG_ERR No_gpsd) w1))
             else if no_detach c = 0 then
               (case osmo_daemonize p w1 of
                  (Return v, w2) \<Rightarrow> main_while p c S_CONNECTED opens' fd w2
                | (Exited code, w2) \<Rightarrow> (Exited code, w2)
                | (Pending, w2) \<Rightarrow> (Pending, w2)
                | (Undefined, w2) \<Rightarrow> (Undefined, w2))
             else main_while p c S_CONNECTED opens' fd w1
         | (Exited code, opens', w1) \<Rightarrow> (Exited code, w1)
         | (Pending, opens', w1) \<Rightarrow> (Pending, w1)
         | (Undefined, opens', w1) \<Rightarrow> (Undefined, w1))"

subsection \<open>Concrete inputs\<close>

text \<open>
  A platform with the \<^verbatim>\<open>TIME_SET\<close> bit of current gpsd headers, 32-bit \<^verbatim>\<open>int\<close>, 64-bit
  \<^verbatim>\<open>time_t\<close> and the conversion of x86-64, a \<^verbatim>\<open>ctime\<close> that yields a
  fixed line, a \<^verbatim>\<open>settimeofday\<close> that succeeds and a \<^verbatim>\<open>fork\<close> that answers 0, so that the
  process followed is the detached child; one where \<^verbatim>\<open>settimeofday\<close> fails; one where
  \<^verbatim>\<open>fork\<close> answers a pid, so that the process followed is the foreground parent; and a
  report that carries a time, a fix and four satellites.
\<close>

definition demo_platform :: platform where
  "demo_platform =
     \<lparr>TIME_SET = 4, DEFAULT_GPSD_PORT = ''2947'', INT_MAX = 2147483647, EEXIST = 17,
      TIME_T_MIN = - 9223372036854775808, TIME_T_MAX = 9223372036854775807,
      time_t_overflow = (\<lambda>d. - 9223372036854775808),
      ctime = (\<lambda>t. Some (''Tue Nov 14 22:13:20 2023'' @ [CHR 0x0A])),
      settimeofday = (\<lambda>tv. 0),
      getppid = 4711, fork = 0, setsid = 4713, chdir = (\<lambda>d. 0)\<rparr>"

definition unprivileged_platform :: platform where
  "unprivileged_platform = demo_platform\<lparr>settimeofday := (\<lambda>tv. - 1)\<rparr>"

definition foreground_platform :: platform where
  "foreground_platform = demo_platform\<lparr>fork := 4713\<rparr>"

definition demo_fix :: gps_data_t where
  "demo_fix =
     \<lparr>gps_set = 6, fix_time = Finite 1700000000.75, status = 1, satellites_used = 4\<rparr>"

section \<open>Properties\<close>

subsection \<open>Traces\<close>

lemma clock_sets_append [simp]: "clock_sets (xs @ ys) = clock_sets xs @ clock_sets ys"
  by (induction xs rule: clock_sets.induct) simp_all

lemma sleeps_append [simp]: "sleeps (xs @ ys) = sleeps xs @ sleeps ys"
  by (induction xs rule: sleeps.induct) simp_all

lemma connects_append [simp]: "connects (xs @ ys) = connects xs + connects ys"
  by (induction xs rule: connects.induct) simp_all

lemma trace_emit [simp]: "trace (emit a w) = trace w @ [a]"
  by (simp add: emit_def)

lemma gpsdata_emit [simp]: "gpsdata (emit a w) = gpsdata w"
  by (simp add: emit_def)

lemma trunc_toward_zero_truncates:
  "\<bar>real_of_int (trunc_toward_zero x)\<bar> \<le> \<bar>x\<bar> \<and> \<bar>x - real_of_int (trunc_toward_zero x)\<bar> < 1"
  unfolding trunc_toward_zero_def by (simp; linarith)

lemma double_to_time_t_in_range:
  "TIME_T_MIN p \<le> trunc_toward_zero x \<Longrightarrow> trunc_toward_zero x \<le> TIME_T_MAX p \<Longrightarrow>
     double_to_time_t p (Finite x) = trunc_toward_zero x"
  by (simp add: double_to_time_t_def)

lemma unsigned_int_RETRY_SLEEP: "unsigned_int p RETRY_SLEEP = RETRY_SLEEP"
  by (simp add: unsigned_int_def RETRY_SLEEP_def)

lemma unsigned_int_nonneg: "0 \<le> x \<Longrightarrow> unsigned_int p x = x"
  by (simp add: unsigned_int_def)

lemma int_inc_below: "i \<noteq> INT_MAX p \<Longrightarrow> int_inc p i = i + 1"
  by (simp add: int_inc_def)

subsection \<open>The validation rules of \<^verbatim>\<open>callback\<close>\<close>

text \<open>
  C1, as the code has it. A report whose mask has the time bit, whose time is finite with
  whole seconds that fit \<^verbatim>\<open>time_t\<close>, whose status is not 0 and whose \<^verbatim>\<open>satellites_used\<close> is
  positive is accepted: \<^verbatim>\<open>callback\<close> does not return, and the one \<^verbatim>\<open>settimeofday\<close> call it
  adds receives the report's time with the fractional part discarded (the integer no
  further from zero than the time and less than one second away from it) and zero
  microseconds.
\<close>

theorem callback_accepts_valid_fix:
  assumes "gps_set (gpsdata w) AND TIME_SET p \<noteq> 0"
    and "status (gpsdata w) \<noteq> 0"
    and "satellites_used (gpsdata w) > 0"
    and "fix_time (gpsdata w) = Finite x"
    and "TIME_T_MIN p \<le> trunc_toward_zero x"
    and "trunc_toward_zero x \<le> TIME_T_MAX p"
  shows "\<exists>code w'. callback p w = (Exited code, w') \<and>
           clock_sets (trace w') = clock_sets (trace w) @
             [\<lparr>tv_sec = trunc_toward_zero x, tv_usec = 0\<rparr>] \<and>
           \<bar>real_of_int (trunc_toward_zero x)\<bar> \<le> \<bar>x\<bar> \<and>
           \<bar>x - real_of_int (trunc_toward_zero x)\<bar> < 1"
  using assms trunc_toward_zero_truncates [of x]
  by (simp add: callback_def Let_def double_to_time_t_in_range)

theorem callback_accepts_valid_fix_witness:
  "gps_set (gpsdata \<lparr>gpsdata = demo_fix, trace = []\<rparr>) AND TIME_SET demo_platform \<noteq> 0 \<and>
   status (gpsdata \<lparr>gpsdata = demo_fix, trace = []\<rparr>) \<noteq> 0 \<and>
   satellites_used (gpsdata \<lparr>gpsdata = demo_fix, trace = []\<rparr>) > 0 \<and>
   fix_time (gpsdata \<lparr>gpsdata = demo_fix, trace = []\<rparr>) = Finite 1700000000.75 \<and>
   TIME_T_MIN demo_platform \<le> trunc_toward_zero 1700000000.75 \<and>
   trunc_toward_zero 1700000000.75 \<le> TIME_T_MAX demo_platform \<and>
   fst (callback demo_platform \<lparr>gpsdata = demo_fix, trace = []\<rparr>) = Exited 0 \<and>
   clock_sets (trace (snd (callback demo_platform \<lparr>gpsdata = demo_fix, trace = []\<rparr>))) =
     [\<lparr>tv_sec = 1700000000, tv_usec = 0\<rparr>]"
  using callback_accepts_valid_fix
    [of "\<lparr>gpsdata = demo_fix, trace = []\<rparr>" demo_platform "1700000000.75"]
  by (simp add: demo_platform_def demo_fix_def callback_def Let_def double_to_time_t_def
      trunc_toward_zero_def EXIT_SUCCESS_def)

text \<open>
  C1 as the specification states it does not hold: a report that passes the three tests
  with the time 9223372036854775808, whose whole seconds exceed a 64-bit \<^verbatim>\<open>time_t\<close>, makes the program call
  \<^verbatim>\<open>settimeofday\<close> with the least \<^verbatim>\<open>time_t\<close>, which is not that time truncated; so does a
  report whose time is a NaN, which has no whole seconds.
\<close>

theorem callback_time_out_of_range_counterexample:
  "gps_set (demo_fix\<lparr>fix_time := Finite 9223372036854775808\<rparr>) AND TIME_SET demo_platform \<noteq> 0 \<and>
   status (demo_fix\<lparr>fix_time := Finite 9223372036854775808\<rparr>) \<noteq> 0 \<and>
   satellites_used (demo_fix\<lparr>fix_time := Finite 9223372036854775808\<rparr>) > 0 \<and>
   trunc_toward_zero 9223372036854775808 = 9223372036854775808 \<and>
   clock_sets (trace (snd (callback demo_platform
       \<lparr>gpsdata = demo_fix\<lparr>fix_time := Finite 9223372036854775808\<rparr>, trace = []\<rparr>))) =
     [\<lparr>tv_sec = - 9223372036854775808, tv_usec = 0\<rparr>] \<and>
   clock_sets (trace (snd (callback demo_platform
       \<lparr>gpsdata = demo_fix\<lparr>fix_time := NaN\<rparr>, trace = []\<rparr>))) =
     [\<lparr>tv_sec = - 9223372036854775808, tv_usec = 0\<rparr>]"
  by (simp add: demo_platform_def demo_fix_def callback_def Let_def double_to_time_t_def
      trunc_toward_zero_def)

text \<open>
  C4. A report whose mask lacks the time bit is rejected whatever its status and its
  \<^verbatim>\<open>satellites_used\<close> are: \<^verbatim>\<open>callback\<close> returns at once and leaves the process as it was, so
  it makes no call at all, and no \<^verbatim>\<open>settimeofday\<close> call in particular.
\<close>

theorem callback_rejects_without_time:
  assumes "gps_set (gpsdata w) AND TIME_SET p = 0"
  shows "callback p w = (Return (), w)"
  using assms by (simp add: callback_def)

theorem callback_rejects_without_time_witness:
  "gps_set (gpsdata \<lparr>gpsdata = demo_fix\<lparr>gps_set := 3\<rparr>, trace = []\<rparr>) AND TIME_SET demo_platform = 0 \<and>
   callback demo_platform \<lparr>gpsdata = demo_fix\<lparr>gps_set := 3\<rparr>, trace = []\<rparr> =
     (Return (), \<lparr>gpsdata = demo_fix\<lparr>gps_set := 3\<rparr>, trace = []\<rparr>) \<and>
   clock_sets (trace (snd (callback demo_platform \<lparr>gpsdata = demo_fix\<lparr>gps_set := 3\<rparr>, trace = []\<rparr>))) = []"
  using callback_rejects_without_time
    [of "\<lparr>gpsdata = demo_fix\<lparr>gps_set := 3\<rparr>, trace = []\<rparr>" demo_platform]
  by (simp add: demo_platform_def demo_fix_def)

text \<open>The two discarding branches behind the debug line.\<close>

lemma callback_discards:
  assumes "status (gpsdata w) = 0 \<or> satellites_used (gpsdata w) = 0"
  shows "\<exists>w'. callback p w = (Return (), w') \<and> clock_sets (trace w') = clock_sets (trace w)"
  using assms by (auto simp add: callback_def Let_def)

text \<open>
  C5. A report whose status is 0 is rejected, whatever its mask, its time and its
  \<^verbatim>\<open>satellites_used\<close> are. \<^verbatim>\<open>callback\<close> returns, having written at most the debug line and
  the line that says the report is discarded, and no \<^verbatim>\<open>settimeofday\<close> call. The rejection
  is not fatal: the read loop that delivered the report goes on with the rest of the feed
  from exactly that state, and when the feed holds nothing more the process is inside
  the next \<^verbatim>\<open>gps_waiting\<close> call, in the read loop and in the \<^verbatim>\<open>while\<close> loop of \<^verbatim>\<open>main\<close> alike.
\<close>

theorem callback_rejects_no_fix:
  assumes "status g = 0" and "0 \<le> rc"
  shows
    "let ts = strip_lf (case ctime p (double_to_time_t p (fix_time g)) of
                          None \<Rightarrow> ''<unknown>'' | Some s \<Rightarrow> s);
         logged =
           (if gps_set g AND TIME_SET p = 0 then []
            else (if ctime p (double_to_time_t p (fix_time g)) = None
                  then [Syslog LOG_ERR Ctime_failed] else []) @
                 [Syslog LOG_DEBUG (Report ts (gps_set g) (status g) (satellites_used g)),
                  Syslog LOG_INFO (Discarding_no_fix ts)]);
         w2 = \<lparr>gpsdata = g, trace = trace w @ [Gps_waiting t, Gps_read] @ logged\<rparr>
     in callback p (w\<lparr>gpsdata := g\<rparr>) =
          (Return (), \<lparr>gpsdata = g, trace = trace w @ logged\<rparr>) \<and>
        clock_sets logged = [] \<and>
        my_gps_mainloop t (callback p) (Data rc g # rest) w =
          my_gps_mainloop t (callback p) rest w2 \<and>
        my_gps_mainloop t (callback p) [Data rc g] w =
          (Pending, [], w2\<lparr>trace := trace w2 @ [Gps_waiting t]\<rparr>) \<and>
        (t = INT_MAX p \<longrightarrow>
           main_while p c S_CONNECTED opens [Data rc g] w =
             (Pending, w2\<lparr>trace := trace w2 @ [Gps_waiting t]\<rparr>))"
proof (cases w)
  case (fields gd tr)
  show ?thesis
  proof (cases "gps_set g AND TIME_SET p = 0")
    case True
    with assms fields show ?thesis
      by (simp add: Let_def callback_def emit_def main_while.simps)
  next
    case False
    with assms fields show ?thesis
      by (cases "ctime p (double_to_time_t p (fix_time g))")
        (simp_all add: Let_def callback_def emit_def main_while.simps)
  qed
qed

theorem callback_rejects_no_fix_witness:
  "status (demo_fix\<lparr>status := 0\<rparr>) = 0 \<and> (0::int) \<le> 120 \<and>
   callback demo_platform \<lparr>gpsdata = demo_fix\<lparr>status := 0\<rparr>, trace = []\<rparr> =
     (Return (), \<lparr>gpsdata = demo_fix\<lparr>status := 0\<rparr>,
        trace = [Syslog LOG_DEBUG (Report ''Tue Nov 14 22:13:20 2023'' 6 0 4),
                 Syslog LOG_INFO (Discarding_no_fix ''Tue Nov 14 22:13:20 2023'')]\<rparr>) \<and>
   my_gps_mainloop 5 (callback demo_platform) [Data 120 (demo_fix\<lparr>status := 0\<rparr>)]
       \<lparr>gpsdata = demo_fix, trace = []\<rparr> =
     (Pending, [], \<lparr>gpsdata = demo_fix\<lparr>status := 0\<rparr>,
        trace = [Gps_waiting 5, Gps_read,
                 Syslog LOG_DEBUG (Report ''Tue Nov 14 22:13:20 2023'' 6 0 4),
                 Syslog LOG_INFO (Discarding_no_fix ''Tue Nov 14 22:13:20 2023''),
                 Gps_waiting 5]\<rparr>) \<and>
   my_gps_mainloop 5 (callback demo_platform) [Data 120 (demo_fix\<lparr>status := 0\<rparr>), Data 48 demo_fix]
       \<lparr>gpsdata = demo_fix, trace = []\<rparr> =
     (Exited 0, [], \<lparr>gpsdata = demo_fix,
        trace = [Gps_waiting 5, Gps_read,
                 Syslog LOG_DEBUG (Report ''Tue Nov 14 22:13:20 2023'' 6 0 4),
                 Syslog LOG_INFO (Discarding_no_fix ''Tue Nov 14 22:13:20 2023''),
                 Gps_waiting 5, Gps_read,
                 Syslog LOG_DEBUG (Report ''Tue Nov 14 22:13:20 2023'' 6 1 4),
                 Settimeofday \<lparr>tv_sec = 1700000000, tv_usec = 0\<rparr>, Gps_close,
                 Syslog LOG_NOTICE (Set_rtc_ok ''Tue Nov 14 22:13:20 2023''), Closelog]\<rparr>)"
proof -
  have h: "status (demo_fix\<lparr>status := 0\<rparr>) = 0" and r: "(0::int) \<le> 120"
    by simp_all
  note a = callback_rejects_no_fix [OF h r, where p = demo_platform
      and w = "\<lparr>gpsdata = demo_fix, trace = []\<rparr>" and t = 5 and rest = "[Data 48 demo_fix]"]
  from h r a show ?thesis
    by (simp add: demo_platform_def demo_fix_def callback_def Let_def emit_def strip_lf_def
        double_to_time_t_def trunc_toward_zero_def EXIT_SUCCESS_def)
qed

text \<open>
  C6. A report whose \<^verbatim>\<open>satellites_used\<close> is 0 is rejected, also when its status indicates a
  fix: \<^verbatim>\<open>callback\<close> returns without a \<^verbatim>\<open>settimeofday\<close> call, and the read loop goes on with
  the rest of the feed.
\<close>

theorem callback_rejects_zero_satellites:
  assumes "satellites_used g = 0" and "0 \<le> rc"
  shows "\<exists>w1 w2. callback p (w\<lparr>gpsdata := g\<rparr>) = (Return (), w1) \<and>
           clock_sets (trace w1) = clock_sets (trace w) \<and>
           my_gps_mainloop t (callback p) (Data rc g # rest) w =
             my_gps_mainloop t (callback p) rest w2 \<and>
           clock_sets (trace w2) = clock_sets (trace w)"
proof -
  let ?w0 = "(emit Gps_read (emit (Gps_waiting t) w))\<lparr>gpsdata := g\<rparr>"
  from assms obtain w1 where
    a: "callback p (w\<lparr>gpsdata := g\<rparr>) = (Return (), w1)"
       "clock_sets (trace w1) = clock_sets (trace (w\<lparr>gpsdata := g\<rparr>))"
    using callback_discards [of "w\<lparr>gpsdata := g\<rparr>" p] by auto
  from assms obtain w2 where
    b: "callback p ?w0 = (Return (), w2)" "clock_sets (trace w2) = clock_sets (trace ?w0)"
    using callback_discards [of ?w0 p] by auto
  from assms b have c: "my_gps_mainloop t (callback p) (Data rc g # rest) w =
      my_gps_mainloop t (callback p) rest w2"
    by (simp add: Let_def)
  from a b c show ?thesis
    by - (rule exI [of _ w1], rule exI [of _ w2], simp)
qed

theorem callback_rejects_zero_satellites_witness:
  "satellites_used (demo_fix\<lparr>satellites_used := 0\<rparr>) = 0 \<and> (0::int) \<le> 120 \<and>
   status (demo_fix\<lparr>satellites_used := 0\<rparr>) = 1 \<and>
   callback demo_platform \<lparr>gpsdata = demo_fix\<lparr>satellites_used := 0\<rparr>, trace = []\<rparr> =
     (Return (), \<lparr>gpsdata = demo_fix\<lparr>satellites_used := 0\<rparr>,
        trace = [Syslog LOG_DEBUG (Report ''Tue Nov 14 22:13:20 2023'' 6 1 0),
                 Syslog LOG_INFO (Discarding_zero_sats ''Tue Nov 14 22:13:20 2023'')]\<rparr>) \<and>
   my_gps_mainloop 5 (callback demo_platform) [Data 120 (demo_fix\<lparr>satellites_used := 0\<rparr>)]
       \<lparr>gpsdata = demo_fix, trace = []\<rparr> =
     (Pending, [], \<lparr>gpsdata = demo_fix\<lparr>satellites_used := 0\<rparr>,
        trace = [Gps_waiting 5, Gps_read,
                 Syslog LOG_DEBUG (Report ''Tue Nov 14 22:13:20 2023'' 6 1 0),
                 Syslog LOG_INFO (Discarding_zero_sats ''Tue Nov 14 22:13:20 2023''),
                 Gps_waiting 5]\<rparr>)"
  using callback_rejects_zero_satellites [of "demo_fix\<lparr>satellites_used := 0\<rparr>" 120
      demo_platform "\<lparr>gpsdata = demo_fix, trace = []\<rparr>" 5 "[]"]
  by (simp add: demo_platform_def demo_fix_def callback_def Let_def emit_def strip_lf_def
      double_to_time_t_def trunc_toward_zero_def)

subsection \<open>Losing the connection\<close>

text \<open>Every value the read loop returns is negative, whatever the hook does.\<close>

lemma my_gps_mainloop_negative:
  "my_gps_mainloop t hook fd w = (Return rc, fd', w') \<Longrightarrow> rc < 0"
proof (induction t hook fd w rule: my_gps_mainloop.induct)
  case (1 timeout hook w)
  then show ?case by simp
next
  case (2 timeout hook rest w)
  then show ?case by simp
next
  case (3 timeout hook rc0 g rest w)
  show ?case
  proof (cases "rc0 < 0")
    case True
    with "3.prems" show ?thesis by (simp add: Let_def)
  next
    case False
    obtain oc w2 where
      h: "hook ((emit Gps_read (emit (Gps_waiting timeout) w))\<lparr>gpsdata := g\<rparr>) = (oc, w2)"
      by (cases "hook ((emit Gps_read (emit (Gps_waiting timeout) w))\<lparr>gpsdata := g\<rparr>)")
    show ?thesis
    proof (cases oc)
      case (Return u)
      with False h "3.prems" have "my_gps_mainloop timeout hook rest w2 = (Return rc, fd', w')"
        by (simp add: Let_def)
      with "3.IH" [OF refl False h [symmetric] Return] show ?thesis
        by simp
    qed (use False h "3.prems" in \<open>simp_all add: Let_def\<close>)
  qed
qed

text \<open>
  C7. In the connected state both ways of losing the connection, \<^verbatim>\<open>gps_waiting\<close> finding no
  data within the timeout and \<^verbatim>\<open>gps_read\<close> returning a negative result, make the read loop
  return a negative value, and \<^verbatim>\<open>main\<close> then logs the loss, closes the handle and goes to
  the reconnecting state, where it calls \<^verbatim>\<open>gps_open\<close>; the process does not exit. The read
  loop never returns a value that is not negative.
\<close>

theorem connection_loss_reconnects:
  assumes "ev = NoData \<or> (\<exists>rc g. ev = Data rc g \<and> rc < 0)"
  shows "(\<exists>rc w'. rc < 0 \<and>
            my_gps_mainloop (INT_MAX p) (callback p) (ev # rest) w = (Return rc, rest, w') \<and>
            clock_sets (trace w') = clock_sets (trace w) \<and>
            main_while p c S_CONNECTED opens (ev # rest) w =
              main_while p c S_RECONNECT opens rest
                (emit Gps_close (emit (Syslog LOG_ERR (Connection_closed rc)) w')) \<and>
            main_while p c S_CONNECTED [] (ev # rest) w =
              (Pending,
               emit (Gps_open (host c) (port c))
                 (emit Gps_close (emit (Syslog LOG_ERR (Connection_closed rc)) w')))) \<and>
         (\<forall>t hook fd v rc fd' v'.
            my_gps_mainloop t hook fd v = (Return rc, fd', v') \<longrightarrow> rc < 0)"
proof -
  let ?t = "INT_MAX p"
  from assms obtain rc w' where
    r: "rc < 0" "my_gps_mainloop ?t (callback p) (ev # rest) w = (Return rc, rest, w')"
       "clock_sets (trace w') = clock_sets (trace w)"
    by (auto simp add: Let_def)
  have step: "main_while p c S_CONNECTED os (ev # rest) w =
      main_while p c S_RECONNECT os rest
        (emit Gps_close (emit (Syslog LOG_ERR (Connection_closed rc)) w'))" for os
    using r by (subst main_while.simps) simp
  have "main_while p c S_RECONNECT [] rest
          (emit Gps_close (emit (Syslog LOG_ERR (Connection_closed rc)) w')) =
        (Pending, emit (Gps_open (host c) (port c))
          (emit Gps_close (emit (Syslog LOG_ERR (Connection_closed rc)) w')))"
    by (subst main_while.simps) (simp add: attempt_reconnect_def)
  with r step [of opens] step [of "[]"] have first: "\<exists>rc w'. rc < 0 \<and>
            my_gps_mainloop (INT_MAX p) (callback p) (ev # rest) w = (Return rc, rest, w') \<and>
            clock_sets (trace w') = clock_sets (trace w) \<and>
            main_while p c S_CONNECTED opens (ev # rest) w =
              main_while p c S_RECONNECT opens rest
                (emit Gps_close (emit (Syslog LOG_ERR (Connection_closed rc)) w')) \<and>
            main_while p c S_CONNECTED [] (ev # rest) w =
              (Pending,
               emit (Gps_open (host c) (port c))
                 (emit Gps_close (emit (Syslog LOG_ERR (Connection_closed rc)) w')))"
    by - (rule exI [of _ rc], rule exI [of _ w'], simp)
  have second: "\<forall>t hook fd v rc fd' v'.
            my_gps_mainloop t hook fd v = (Return rc, fd', v') \<longrightarrow> rc < 0"
    using my_gps_mainloop_negative by blast
  from first second show ?thesis ..
qed

theorem connection_loss_reconnects_witness:
  "(NoData = NoData \<or> (\<exists>rc g. NoData = Data rc g \<and> rc < 0)) \<and>
   (Data (- 1) demo_fix = NoData \<or> (\<exists>rc g. Data (- 1) demo_fix = Data rc g \<and> rc < 0)) \<and>
   my_gps_mainloop (INT_MAX demo_platform) (callback demo_platform) [NoData]
       \<lparr>gpsdata = demo_fix, trace = []\<rparr> =
     (Return (- 1), [], \<lparr>gpsdata = demo_fix, trace = [Gps_waiting 2147483647]\<rparr>) \<and>
   my_gps_mainloop (INT_MAX demo_platform) (callback demo_platform) [Data (- 1) demo_fix]
       \<lparr>gpsdata = demo_fix, trace = []\<rparr> =
     (Return (- 1), [], \<lparr>gpsdata = demo_fix, trace = [Gps_waiting 2147483647, Gps_read]\<rparr>) \<and>
   main_while demo_platform (parse_args demo_platform [] []) S_CONNECTED [] [NoData]
       \<lparr>gpsdata = demo_fix, trace = []\<rparr> =
     (Pending, \<lparr>gpsdata = demo_fix,
        trace = [Gps_waiting 2147483647, Syslog LOG_ERR (Connection_closed (- 1)), Gps_close,
                 Gps_open ''localhost'' ''2947'']\<rparr>) \<and>
   main_while demo_platform (parse_args demo_platform [] []) S_CONNECTED [] [Data (- 1) demo_fix]
       \<lparr>gpsdata = demo_fix, trace = []\<rparr> =
     (Pending, \<lparr>gpsdata = demo_fix,
        trace = [Gps_waiting 2147483647, Gps_read, Syslog LOG_ERR (Connection_closed (- 1)),
                 Gps_close, Gps_open ''localhost'' ''2947'']\<rparr>)"
proof -
  have h1: "NoData = NoData \<or> (\<exists>rc g. NoData = Data rc g \<and> rc < 0)"
    by simp
  have h2: "Data (- 1) demo_fix = NoData \<or>
      (\<exists>rc g. Data (- 1) demo_fix = Data rc g \<and> rc < 0)"
    by simp
  note a = connection_loss_reconnects [OF h1, of demo_platform "[]"
      "\<lparr>gpsdata = demo_fix, trace = []\<rparr>" "parse_args demo_platform [] []" "[]",
      THEN conjunct1]
  note b = connection_loss_reconnects [OF h2, of demo_platform "[]"
      "\<lparr>gpsdata = demo_fix, trace = []\<rparr>" "parse_args demo_platform [] []" "[]",
      THEN conjunct1]
  from h1 h2 a b show ?thesis
    by (simp add: demo_platform_def demo_fix_def parse_args_def Let_def emit_def
        main_while.simps attempt_reconnect_def)
qed

subsection \<open>The startup attempts\<close>

text \<open>One turn of the \<^verbatim>\<open>for\<close> loop, by what \<^verbatim>\<open>gps_open\<close> answers.\<close>

lemma main_for_done:
  "num_retries c < i \<Longrightarrow> main_for p c i rc opens w = (Return rc, opens, w)"
  by (subst main_for.simps) simp

lemma main_for_pending:
  "i \<le> num_retries c \<Longrightarrow>
     main_for p c i rc [] w =
       (Pending, [], emit (Gps_open (host c) (port c)) (emit (Printf (Attempt i (host c))) w))"
  by (subst main_for.simps) (simp add: attempt_reconnect_def)

lemma main_for_failure_step:
  assumes "i \<le> num_retries c" and "r \<noteq> 0"
  shows "main_for p c i rc (r # opens) w =
           main_for p c (int_inc p i) (Some (- 1)) opens
             (emit (Sleep (unsigned_int p (retry_sleep c)))
               (emit (Gps_open (host c) (port c)) (emit (Printf (Attempt i (host c))) w)))"
  using assms by (subst main_for.simps) (simp add: attempt_reconnect_def)

lemma main_for_success_step:
  assumes "i \<le> num_retries c"
  shows "main_for p c i rc (0 # opens) w =
           (Return (Some 0), opens,
            emit Gps_stream (emit (Syslog LOG_INFO Reconnected)
              (emit (Gps_open (host c) (port c)) (emit (Printf (Attempt i (host c))) w))))"
  using assms by (subst main_for.simps) (simp add: attempt_reconnect_def)

text \<open>
  A run of failed attempts that stays below \<^verbatim>\<open>INT_MAX\<close>: each one is a \<^verbatim>\<open>gps_open\<close> call
  followed by a sleep of \<^verbatim>\<open>retry_sleep\<close> seconds, the last one included.
\<close>

lemma main_for_failures:
  assumes "0 \<notin> set fails" and "i + int (length fails) \<le> num_retries c + 1"
    and "i + int (length fails) \<le> INT_MAX p"
  shows "\<exists>w'. main_for p c i rc (fails @ rest) w =
             main_for p c (i + int (length fails)) (if fails = [] then rc else Some (- 1))
               rest w' \<and>
           gpsdata w' = gpsdata w \<and>
           connects (trace w') = connects (trace w) + length fails \<and>
           sleeps (trace w') =
             sleeps (trace w) @ replicate (length fails) (unsigned_int p (retry_sleep c)) \<and>
           clock_sets (trace w') = clock_sets (trace w)"
  using assms
proof (induction fails arbitrary: i rc w)
  case Nil
  show ?case by (rule exI [of _ w]) simp
next
  case (Cons r fs)
  let ?w1 = "emit (Sleep (unsigned_int p (retry_sleep c)))
               (emit (Gps_open (host c) (port c)) (emit (Printf (Attempt i (host c))) w))"
  from Cons.prems have le: "i \<le> num_retries c" and r: "r \<noteq> 0" and ne: "i \<noteq> INT_MAX p"
    by simp_all
  from Cons.prems have "0 \<notin> set fs" and "(i + 1) + int (length fs) \<le> num_retries c + 1"
    and "(i + 1) + int (length fs) \<le> INT_MAX p"
    by simp_all
  from Cons.IH [OF this, of "Some (- 1)" ?w1] obtain w' where
    w': "main_for p c (i + 1) (Some (- 1)) (fs @ rest) ?w1 =
           main_for p c (i + 1 + int (length fs)) (Some (- 1)) rest w'"
        "gpsdata w' = gpsdata ?w1"
        "connects (trace w') = connects (trace ?w1) + length fs"
        "sleeps (trace w') =
           sleeps (trace ?w1) @ replicate (length fs) (unsigned_int p (retry_sleep c))"
        "clock_sets (trace w') = clock_sets (trace ?w1)"
    by (auto split: if_splits)
  have "main_for p c i rc ((r # fs) @ rest) w =
      main_for p c (i + 1) (Some (- 1)) (fs @ rest) ?w1"
    using main_for_failure_step [OF le r] int_inc_below [OF ne] by simp
  with w' show ?case
    by - (rule exI [of _ w'], simp add: ac_simps)
qed

text \<open>
  With a bound below \<^verbatim>\<open>INT_MAX\<close> the loop calls \<^verbatim>\<open>gps_open\<close> at most once per value of its
  counter; it never sets the clock.
\<close>

lemma main_for_at_most:
  assumes "main_for p c i rc opens w = (oc, opens', w')" and "num_retries c < INT_MAX p"
  shows "connects (trace w') \<le> connects (trace w) + nat (num_retries c + 1 - i) \<and>
         clock_sets (trace w') = clock_sets (trace w)"
  using assms(1)
proof (induction opens arbitrary: i rc w)
  case Nil
  then show ?case
    by (cases "i \<le> num_retries c") (auto simp: main_for_pending main_for_done)
next
  case (Cons r rs)
  show ?case
  proof (cases "i \<le> num_retries c")
    case False
    with Cons.prems show ?thesis by (simp add: main_for_done)
  next
    case True
    show ?thesis
    proof (cases "r = 0")
      case r0: True
      with True Cons.prems show ?thesis
        by (auto simp: main_for_success_step)
    next
      case False
      let ?w1 = "emit (Sleep (unsigned_int p (retry_sleep c)))
                   (emit (Gps_open (host c) (port c)) (emit (Printf (Attempt i (host c))) w))"
      from True assms(2) have "i \<noteq> INT_MAX p" by simp
      with False True Cons.prems have
        "main_for p c (i + 1) (Some (- 1)) rs ?w1 = (oc, opens', w')"
        by (simp add: main_for_failure_step int_inc_below)
      from Cons.IH [OF this]
      have "connects (trace w') \<le> connects (trace ?w1) + nat (num_retries c + 1 - (i + 1))"
        and "clock_sets (trace w') = clock_sets (trace ?w1)"
        by simp_all
      with True show ?thesis by simp
    qed
  qed
qed

text \<open>
  C3, as the code has it. With \<^verbatim>\<open>num_retries\<close> = n below \<^verbatim>\<open>INT_MAX\<close> the startup loop calls
  \<^verbatim>\<open>gps_open\<close> at most n times (at \<^verbatim>\<open>INT_MAX\<close> the counter cannot pass the bound). When the
  first k - 1 attempts fail and attempt k \<open>\<le>\<close> n succeeds, the loop yields the connection
  after exactly k \<^verbatim>\<open>gps_open\<close> calls and k - 1 sleeps of \<^verbatim>\<open>retry_sleep\<close> seconds, without a
  clock call. When all n \<open>\<ge>\<close> 1 attempts fail, n below \<^verbatim>\<open>INT_MAX\<close>, \<^verbatim>\<open>main\<close> exits with
  \<^verbatim>\<open>EXIT_FAILURE\<close>, which is not 0, after exactly n \<^verbatim>\<open>gps_open\<close> calls and exactly n sleeps (a
  sleep follows every failed attempt, the last included), and no \<^verbatim>\<open>settimeofday\<close> call is
  made; for n = 3 that is 3 attempts and 3 sleeps. The seconds of a sleep are
  \<^verbatim>\<open>retry_sleep\<close> as \<^verbatim>\<open>sleep\<close> receives it, converted to \<^verbatim>\<open>unsigned int\<close>.
\<close>

theorem startup_retry_policy:
  assumes "0 \<notin> set fails"
  shows "(num_retries c < INT_MAX p \<and> main_for p c 1 None opens w = (oc, opens', w') \<longrightarrow>
            connects (trace w') \<le> connects (trace w) + nat (num_retries c)) \<and>
         (int (length fails) + 1 \<le> num_retries c \<and> num_retries c \<le> INT_MAX p \<longrightarrow>
            (\<exists>w'. main_for p c 1 None (fails @ 0 # rest) w = (Return (Some 0), rest, w') \<and>
                  connects (trace w') = connects (trace w) + (length fails + 1) \<and>
                  sleeps (trace w') =
                    sleeps (trace w) @
                    replicate (length fails) (unsigned_int p (retry_sleep c)) \<and>
                  clock_sets (trace w') = clock_sets (trace w))) \<and>
         (c = parse_args p opts args \<and> fails \<noteq> [] \<and> num_retries c = int (length fails) \<and>
          num_retries c < INT_MAX p \<longrightarrow>
            (\<exists>w'. main p opts args (fails @ rest) fd = (Exited EXIT_FAILURE, w') \<and>
                  EXIT_FAILURE \<noteq> 0 \<and>
                  connects (trace w') = length fails \<and>
                  sleeps (trace w') =
                    replicate (length fails) (unsigned_int p (retry_sleep c)) \<and>
                  clock_sets (trace w') = []))"
proof (intro conjI impI)
  assume "num_retries c < INT_MAX p \<and> main_for p c 1 None opens w = (oc, opens', w')"
  then have "main_for p c 1 None opens w = (oc, opens', w')" and "num_retries c < INT_MAX p"
    by simp_all
  from main_for_at_most [OF this]
  show "connects (trace w') \<le> connects (trace w) + nat (num_retries c)"
    by simp
next
  assume k: "int (length fails) + 1 \<le> num_retries c \<and> num_retries c \<le> INT_MAX p"
  then have "1 + int (length fails) \<le> num_retries c + 1"
    and "1 + int (length fails) \<le> INT_MAX p"
    by simp_all
  from main_for_failures [OF assms this, of None "0 # rest" w] obtain w1 where
    w1: "main_for p c 1 None (fails @ 0 # rest) w =
           main_for p c (1 + int (length fails)) (if fails = [] then None else Some (- 1))
             (0 # rest) w1"
        "connects (trace w1) = connects (trace w) + length fails"
        "sleeps (trace w1) =
           sleeps (trace w) @ replicate (length fails) (unsigned_int p (retry_sleep c))"
        "clock_sets (trace w1) = clock_sets (trace w)"
    by blast
  from k have "1 + int (length fails) \<le> num_retries c" by simp
  from w1 main_for_success_step [OF this]
  show "\<exists>w'. main_for p c 1 None (fails @ 0 # rest) w = (Return (Some 0), rest, w') \<and>
          connects (trace w') = connects (trace w) + (length fails + 1) \<and>
          sleeps (trace w') =
            sleeps (trace w) @ replicate (length fails) (unsigned_int p (retry_sleep c)) \<and>
          clock_sets (trace w') = clock_sets (trace w)"
    by simp
next
  let ?w0 = "\<lparr>gpsdata = \<lparr>gps_set = 0, fix_time = Finite 0, status = 0, satellites_used = 0\<rparr>,
              trace = [Openlog]\<rparr>"
  assume h: "c = parse_args p opts args \<and> fails \<noteq> [] \<and> num_retries c = int (length fails) \<and>
          num_retries c < INT_MAX p"
  then have cdef: "parse_args p opts args = c" and ne: "fails \<noteq> []"
    and n: "num_retries c = int (length fails)" and b: "num_retries c < INT_MAX p"
    by auto
  from n b have "1 + int (length fails) \<le> num_retries c + 1"
    and "1 + int (length fails) \<le> INT_MAX p"
    by simp_all
  from main_for_failures [OF assms this, of None rest ?w0] ne obtain w1 where
    w1: "main_for p c 1 None (fails @ rest) ?w0 =
           main_for p c (1 + int (length fails)) (Some (- 1)) rest w1"
        "connects (trace w1) = length fails"
        "sleeps (trace w1) = replicate (length fails) (unsigned_int p (retry_sleep c))"
        "clock_sets (trace w1) = []"
    by auto
  from n have "num_retries c < 1 + int (length fails)" by simp
  from w1(1) main_for_done [OF this] have
    "main_for p c 1 None (fails @ rest) ?w0 = (Return (Some (- 1)), rest, w1)"
    by simp
  then have "main p opts args (fails @ rest) fd =
      (Exited EXIT_FAILURE, emit Closelog (emit (Syslog LOG_ERR No_gpsd) w1))"
    by (simp add: main_def cdef)
  with w1 show "\<exists>w'. main p opts args (fails @ rest) fd = (Exited EXIT_FAILURE, w') \<and>
          EXIT_FAILURE \<noteq> 0 \<and>
          connects (trace w') = length fails \<and>
          sleeps (trace w') = replicate (length fails) (unsigned_int p (retry_sleep c)) \<and>
          clock_sets (trace w') = []"
    by (simp add: EXIT_FAILURE_def)
qed

theorem startup_retry_policy_witness:
  "0 \<notin> set [- 1, - 1 :: int] \<and> 0 \<notin> set [- 1, - 1, - 1 :: int] \<and>
   fst (main_for demo_platform (parse_args demo_platform [Opt_n 3] []) 1 None [- 1, - 1, 0]
         \<lparr>gpsdata = demo_fix, trace = []\<rparr>) = Return (Some 0) \<and>
   connects (trace (snd (snd (main_for demo_platform (parse_args demo_platform [Opt_n 3] [])
         1 None [- 1, - 1, 0] \<lparr>gpsdata = demo_fix, trace = []\<rparr>)))) = 3 \<and>
   sleeps (trace (snd (snd (main_for demo_platform (parse_args demo_platform [Opt_n 3] [])
         1 None [- 1, - 1, 0] \<lparr>gpsdata = demo_fix, trace = []\<rparr>)))) = [1, 1] \<and>
   fst (main demo_platform [Opt_n 3] [] [- 1, - 1, - 1] []) = Exited 1 \<and>
   connects (trace (snd (main demo_platform [Opt_n 3] [] [- 1, - 1, - 1] []))) = 3 \<and>
   sleeps (trace (snd (main demo_platform [Opt_n 3] [] [- 1, - 1, - 1] []))) = [1, 1, 1] \<and>
   clock_sets (trace (snd (main demo_platform [Opt_n 3] [] [- 1, - 1, - 1] []))) = []"
proof -
  let ?c = "parse_args demo_platform [Opt_n 3] []"
  have h2: "0 \<notin> set [- 1, - 1 :: int]" and h3: "0 \<notin> set [- 1, - 1, - 1 :: int]"
    by simp_all
  note a = startup_retry_policy [OF h2, where c = ?c and rest = "[]"
      and w = "\<lparr>gpsdata = demo_fix, trace = []\<rparr>",
      THEN conjunct2, THEN conjunct1]
  note b = startup_retry_policy [OF h3, where c = ?c and p = demo_platform
      and opts = "[Opt_n 3]" and args = "[]" and rest = "[]" and fd = "[]",
      THEN conjunct2, THEN conjunct2]
  from h2 h3 a b show ?thesis
    by (simp add: main_def parse_args_def Let_def RETRY_SLEEP_def main_for_failure_step main_for_success_step
        main_for_done emit_def EXIT_FAILURE_def int_inc_def unsigned_int_def
        demo_platform_def)
qed

text \<open>
  C3 as the specification states it does not hold: with \<^verbatim>\<open>--num-retries 3\<close> and three
  failing \<^verbatim>\<open>gps_open\<close> calls the process exits with \<^verbatim>\<open>EXIT_FAILURE\<close> after 3 attempts and 3 sleeps, not 2.
\<close>

theorem startup_exhaustion_sleeps_counterexample:
  "fst (main demo_platform [Opt_n 3] [] [- 1, - 1, - 1] []) = Exited EXIT_FAILURE \<and>
   connects (trace (snd (main demo_platform [Opt_n 3] [] [- 1, - 1, - 1] []))) = 3 \<and>
   length (sleeps (trace (snd (main demo_platform [Opt_n 3] [] [- 1, - 1, - 1] [])))) = 3 \<and>
   length (sleeps (trace (snd (main demo_platform [Opt_n 3] [] [- 1, - 1, - 1] [])))) \<noteq> 2"
  by (simp add: main_def parse_args_def Let_def RETRY_SLEEP_def main_for_failure_step main_for_done emit_def
      int_inc_def unsigned_int_def demo_platform_def)

subsection \<open>Runs of the read loop and of the main loop\<close>

lemma commit_run_prepend:
  assumes "commit_run p new code" and "clock_sets xs = []"
  shows "commit_run p (xs @ new) code"
proof -
  from assms(1) obtain pre tv where
    h: "clock_sets pre = []"
       "new = pre @
          [Settimeofday tv, Gps_close,
           if settimeofday p tv = 0
           then Syslog LOG_NOTICE
                  (Set_rtc_ok (strip_lf (case ctime p (tv_sec tv) of
                                           None \<Rightarrow> ''<unknown>'' | Some s \<Rightarrow> s)))
           else Syslog LOG_ERR Set_rtc_error,
           Closelog]"
       "code = (if settimeofday p tv = 0 then EXIT_SUCCESS else EXIT_FAILURE)"
    unfolding commit_run_def by blast
  from h assms(2) show ?thesis
    unfolding commit_run_def
    by - (rule exI [of _ "xs @ pre"], rule exI [of _ tv], simp)
qed

lemma commit_run_clock_sets:
  "commit_run p new code \<Longrightarrow> \<exists>tv. clock_sets new = [tv]"
  unfolding commit_run_def by (auto split: if_splits)

text \<open>What \<^verbatim>\<open>callback\<close> does with a report that passes its three tests.\<close>

lemma callback_accepts:
  assumes "gps_set (gpsdata w) AND TIME_SET p \<noteq> 0"
    and "status (gpsdata w) \<noteq> 0" and "satellites_used (gpsdata w) \<noteq> 0"
  shows "\<exists>code new w'. callback p w = (Exited code, w') \<and> trace w' = trace w @ new \<and>
           sleeps new = [] \<and> commit_run p new code"
proof -
  let ?tv = "\<lparr>tv_sec = double_to_time_t p (fix_time (gpsdata w)), tv_usec = 0\<rparr>"
  let ?ts = "strip_lf (case ctime p (tv_sec ?tv) of None \<Rightarrow> ''<unknown>'' | Some s \<Rightarrow> s)"
  let ?pre = "(if ctime p (tv_sec ?tv) = None then [Syslog LOG_ERR Ctime_failed] else []) @
              [Syslog LOG_DEBUG (Report ?ts (gps_set (gpsdata w)) (status (gpsdata w))
                 (satellites_used (gpsdata w)))]"
  let ?tail = "[Settimeofday ?tv, Gps_close,
           if settimeofday p ?tv = 0 then Syslog LOG_NOTICE (Set_rtc_ok ?ts)
           else Syslog LOG_ERR Set_rtc_error,
           Closelog]"
  let ?code = "if settimeofday p ?tv = 0 then EXIT_SUCCESS else EXIT_FAILURE"
  have pre: "clock_sets ?pre = []" and sl: "sleeps (?pre @ ?tail) = []"
    by simp_all
  have run: "commit_run p (?pre @ ?tail) ?code"
    unfolding commit_run_def
    by (rule exI [of _ ?pre], rule exI [of _ ?tv]) (simp only: pre simp_thms)
  from assms have "\<exists>w'. callback p w = (Exited ?code, w') \<and> trace w' = trace w @ ?pre @ ?tail"
    by (simp add: callback_def Let_def)
  with run sl show ?thesis by blast
qed

text \<open>Every call of \<^verbatim>\<open>callback\<close> either returns without a clock call or ends in a commit.\<close>

lemma callback_result:
  assumes "callback p w = (oc, w')"
  shows "\<exists>new. trace w' = trace w @ new \<and> sleeps new = [] \<and>
           ((oc = Return () \<and> clock_sets new = []) \<or>
            (\<exists>code. oc = Exited code \<and> commit_run p new code))"
proof (cases "gps_set (gpsdata w) AND TIME_SET p \<noteq> 0 \<and> status (gpsdata w) \<noteq> 0 \<and>
              satellites_used (gpsdata w) \<noteq> 0")
  case True
  with callback_accepts [of w p] assms show ?thesis by auto
next
  case False
  with assms have "oc = Return () \<and>
      (\<exists>new. trace w' = trace w @ new \<and> sleeps new = [] \<and> clock_sets new = [])"
    by (auto simp add: callback_def Let_def split: if_splits)
  then show ?thesis by blast
qed

text \<open>The same for the read loop with \<^verbatim>\<open>callback\<close> as its hook.\<close>

lemma my_gps_mainloop_result:
  assumes "my_gps_mainloop t (callback p) fd w = (oc, fd', w')"
  shows "\<exists>new. trace w' = trace w @ new \<and> sleeps new = [] \<and>
           ((((\<exists>rc. oc = Return rc) \<or> oc = Pending) \<and> clock_sets new = []) \<or>
            (\<exists>code. oc = Exited code \<and> commit_run p new code))"
  using assms
proof (induction fd arbitrary: w)
  case Nil
  then show ?case by auto
next
  case (Cons ev rest)
  show ?case
  proof (cases ev)
    case NoData
    with Cons.prems show ?thesis by auto
  next
    case (Data rc0 g)
    let ?w1 = "(emit Gps_read (emit (Gps_waiting t) w))\<lparr>gpsdata := g\<rparr>"
    have tr: "trace ?w1 = trace w @ [Gps_waiting t, Gps_read]" by simp
    show ?thesis
    proof (cases "rc0 < 0")
      case True
      with Data Cons.prems show ?thesis by (auto simp: Let_def)
    next
      case False
      obtain o2 w2 where cb: "callback p ?w1 = (o2, w2)"
        by (cases "callback p ?w1")
      from callback_result [OF cb] obtain n1 where
        n1: "trace w2 = trace ?w1 @ n1" "sleeps n1 = []"
            "(o2 = Return () \<and> clock_sets n1 = []) \<or>
             (\<exists>code. o2 = Exited code \<and> commit_run p n1 code)"
        by blast
      from n1(3) show ?thesis
      proof
        assume r: "o2 = Return () \<and> clock_sets n1 = []"
        with False Data cb Cons.prems have
          "my_gps_mainloop t (callback p) rest w2 = (oc, fd', w')"
          by (simp add: Let_def)
        from Cons.IH [OF this] obtain n2 where
          n2: "trace w' = trace w2 @ n2" "sleeps n2 = []"
              "(((\<exists>rc. oc = Return rc) \<or> oc = Pending) \<and> clock_sets n2 = []) \<or>
               (\<exists>code. oc = Exited code \<and> commit_run p n2 code)"
          by blast
        let ?new = "([Gps_waiting t, Gps_read] @ n1) @ n2"
        have a: "trace w' = trace w @ ?new" using n1 n2 tr by simp
        have b: "sleeps ?new = []" using n1 n2 by simp
        have c: "(((\<exists>rc. oc = Return rc) \<or> oc = Pending) \<and> clock_sets ?new = []) \<or>
               (\<exists>code. oc = Exited code \<and> commit_run p ?new code)"
          using n2(3) r commit_run_prepend [of p n2 _ "[Gps_waiting t, Gps_read] @ n1"]
          by auto
        from a b c show ?thesis by blast
      next
        assume "\<exists>code. o2 = Exited code \<and> commit_run p n1 code"
        then obtain code where e: "o2 = Exited code" "commit_run p n1 code" by blast
        with False Data cb Cons.prems have res: "oc = Exited code" "w' = w2"
          by (simp_all add: Let_def)
        let ?new = "[Gps_waiting t, Gps_read] @ n1"
        have a: "trace w' = trace w @ ?new" using n1 res tr by simp
        have b: "sleeps ?new = []" using n1 by simp
        have c: "commit_run p ?new code"
          using commit_run_prepend [OF e(2), of "[Gps_waiting t, Gps_read]"] by simp
        from a b c res show ?thesis by blast
      qed
    qed
  qed
qed

text \<open>
  The \<^verbatim>\<open>while\<close> loop never returns: on a finite script it is either still inside a
  library call or it has exited through a commit. Every sleep it makes is \<^verbatim>\<open>RETRY_SLEEP\<close>.
\<close>

lemma main_while_result:
  assumes "main_while p c st opens fd w = (oc, w')"
  shows "\<exists>new. trace w' = trace w @ new \<and> (\<exists>k. sleeps new = replicate k RETRY_SLEEP) \<and>
           ((oc = Pending \<and> clock_sets new = []) \<or>
            (\<exists>code. oc = Exited code \<and> commit_run p new code))"
  using assms
proof (induction p c st opens fd w rule: main_while.induct)
  case (1 p c opens fd w)
  obtain o1 fd1 w1 where ml: "my_gps_mainloop (INT_MAX p) (callback p) fd w = (o1, fd1, w1)"
    by (cases "my_gps_mainloop (INT_MAX p) (callback p) fd w")
  from my_gps_mainloop_result [OF ml] obtain n1 where
    n1: "trace w1 = trace w @ n1" "sleeps n1 = []"
        "(((\<exists>rc. o1 = Return rc) \<or> o1 = Pending) \<and> clock_sets n1 = []) \<or>
         (\<exists>code. o1 = Exited code \<and> commit_run p n1 code)"
    by blast
  show ?case
  proof (cases o1)
    case (Return rc)
    with n1(3) have cs: "clock_sets n1 = []" by auto
    let ?w2 = "emit Gps_close (emit (Syslog LOG_ERR (Connection_closed rc)) w1)"
    let ?x = "if rc < 1 then n1 @ [Syslog LOG_ERR (Connection_closed rc), Gps_close] else n1"
    have "\<exists>n2. trace w' = (trace w @ ?x) @ n2 \<and> (\<exists>k. sleeps n2 = replicate k RETRY_SLEEP) \<and>
           ((oc = Pending \<and> clock_sets n2 = []) \<or>
            (\<exists>code. oc = Exited code \<and> commit_run p n2 code))"
    proof (cases "rc < 1")
      case True
      with Return ml "1.prems" have "main_while p c S_RECONNECT opens fd1 ?w2 = (oc, w')"
        by (subst (asm) main_while.simps) simp
      from "1.IH"(1) [OF ml [symmetric] Return refl True this] True n1 show ?thesis
        by simp
    next
      case False
      with Return ml "1.prems" have "main_while p c S_CONNECTED opens fd1 w1 = (oc, w')"
        by (subst (asm) main_while.simps) simp
      from "1.IH"(2) [OF ml [symmetric] Return refl False this] False n1 show ?thesis
        by simp
    qed
    then obtain n2 where
      n2: "trace w' = (trace w @ ?x) @ n2" "\<exists>k. sleeps n2 = replicate k RETRY_SLEEP"
          "(oc = Pending \<and> clock_sets n2 = []) \<or>
           (\<exists>code. oc = Exited code \<and> commit_run p n2 code)"
      by blast
    have xs: "sleeps ?x = []" "clock_sets ?x = []" using n1 cs by simp_all
    have a: "trace w' = trace w @ (?x @ n2)" using n2 by simp
    have b: "\<exists>k. sleeps (?x @ n2) = replicate k RETRY_SLEEP" using n2 xs by simp
    have d: "(oc = Pending \<and> clock_sets (?x @ n2) = []) \<or>
           (\<exists>code. oc = Exited code \<and> commit_run p (?x @ n2) code)"
      using n2(3) xs commit_run_prepend [of p n2 _ ?x] by auto
    from a b d show ?thesis by blast
  next
    case (Exited code)
    with ml "1.prems" have "oc = Exited code" "w' = w1"
      by (subst (asm) main_while.simps, simp)+
    with Exited n1 show ?thesis
      by (intro exI [of _ n1]) (auto intro: exI [of _ 0])
  next
    case Pending
    with ml "1.prems" have "oc = Pending" "w' = w1"
      by (subst (asm) main_while.simps, simp)+
    with Pending n1 show ?thesis
      by (intro exI [of _ n1]) (auto intro: exI [of _ 0])
  next
    case Undefined
    with n1 show ?thesis by auto
  qed
next
  case (2 p c opens fd w)
  show ?case
  proof (cases opens)
    case Nil
    with "2.prems" have "oc = Pending" "w' = emit (Gps_open (host c) (port c)) w"
      by (subst (asm) main_while.simps, simp add: attempt_reconnect_def)+
    then show ?thesis
      by (intro exI [of _ "[Gps_open (host c) (port c)]"]) (auto intro: exI [of _ 0])
  next
    case (Cons r rs)
    let ?w1 = "emit (Gps_open (host c) (port c)) w"
    show ?thesis
    proof (cases "r = 0")
      case True
      let ?w2 = "emit Gps_stream (emit (Syslog LOG_INFO Reconnected) ?w1)"
      let ?x = "[Gps_open (host c) (port c), Syslog LOG_INFO Reconnected, Gps_stream]"
      have ar: "attempt_reconnect (host c) (port c) opens w = (Return 0, rs, ?w2)"
        using True Cons by (simp add: attempt_reconnect_def)
      with "2.prems" have "main_while p c S_CONNECTED rs fd ?w2 = (oc, w')"
        by (subst (asm) main_while.simps) simp
      from "2.IH"(2) [OF ar [symmetric] refl refl _ this] obtain n2 where
        n2: "trace w' = trace ?w2 @ n2" "\<exists>k. sleeps n2 = replicate k RETRY_SLEEP"
            "(oc = Pending \<and> clock_sets n2 = []) \<or>
             (\<exists>code. oc = Exited code \<and> commit_run p n2 code)"
        by auto
      have a: "trace w' = trace w @ (?x @ n2)" using n2 by simp
      have b: "\<exists>k. sleeps (?x @ n2) = replicate k RETRY_SLEEP" using n2 by simp
      have d: "(oc = Pending \<and> clock_sets (?x @ n2) = []) \<or>
             (\<exists>code. oc = Exited code \<and> commit_run p (?x @ n2) code)"
        using n2(3) commit_run_prepend [of p n2 _ ?x] by auto
      from a b d show ?thesis by blast
    next
      case False
      let ?w2 = "emit (Sleep (unsigned_int p RETRY_SLEEP)) ?w1"
      let ?x = "[Gps_open (host c) (port c), Sleep RETRY_SLEEP]"
      have ar: "attempt_reconnect (host c) (port c) opens w = (Return (- 1), rs, ?w1)"
        using False Cons by (simp add: attempt_reconnect_def)
      with "2.prems" have "main_while p c S_RECONNECT rs fd ?w2 = (oc, w')"
        by (subst (asm) main_while.simps) simp
      from "2.IH"(1) [OF ar [symmetric] refl refl _ this] obtain n2 where
        n2: "trace w' = trace ?w2 @ n2" "\<exists>k. sleeps n2 = replicate k RETRY_SLEEP"
            "(oc = Pending \<and> clock_sets n2 = []) \<or>
             (\<exists>code. oc = Exited code \<and> commit_run p n2 code)"
        by auto
      from n2(2) obtain k where k: "sleeps n2 = replicate k RETRY_SLEEP" by blast
      have a: "trace w' = trace w @ (?x @ n2)"
        using n2 by (simp add: unsigned_int_RETRY_SLEEP)
      have b: "\<exists>k. sleeps (?x @ n2) = replicate k RETRY_SLEEP"
        using k by (intro exI [of _ "Suc k"]) simp
      have d: "(oc = Pending \<and> clock_sets (?x @ n2) = []) \<or>
             (\<exists>code. oc = Exited code \<and> commit_run p (?x @ n2) code)"
        using n2(3) commit_run_prepend [of p n2 _ ?x] by auto
      from a b d show ?thesis by blast
    qed
  qed
qed

text \<open>Failed attempts in the reconnecting state: each is a \<^verbatim>\<open>gps_open\<close> call and a sleep.\<close>

lemma main_while_reconnect_failures:
  assumes "0 \<notin> set fails"
  shows "main_while p c S_RECONNECT (fails @ rest) fd w =
           main_while p c S_RECONNECT rest fd
             (w\<lparr>trace := trace w @
                concat (replicate (length fails)
                  [Gps_open (host c) (port c), Sleep RETRY_SLEEP])\<rparr>)"
  using assms
proof (induction fails arbitrary: w)
  case Nil
  show ?case by simp
next
  case (Cons r fs)
  let ?w1 = "emit (Sleep (unsigned_int p RETRY_SLEEP)) (emit (Gps_open (host c) (port c)) w)"
  from Cons.prems have r: "r \<noteq> 0" and fs: "0 \<notin> set fs" by auto
  from r have "main_while p c S_RECONNECT ((r # fs) @ rest) fd w =
      main_while p c S_RECONNECT (fs @ rest) fd ?w1"
    by (subst main_while.simps) (simp add: attempt_reconnect_def)
  with Cons.IH [OF fs, of ?w1] show ?case
    by (simp add: emit_def unsigned_int_RETRY_SLEEP)
qed

lemma main_while_pending:
  "main_while p c S_RECONNECT [] fd w = (Pending, emit (Gps_open (host c) (port c)) w)"
  by (subst main_while.simps) (simp add: attempt_reconnect_def)

text \<open>
  The \<^verbatim>\<open>for\<close> loop: its sleeps are \<^verbatim>\<open>retry_sleep\<close>, it makes no clock call and does not exit;
  \<^verbatim>\<open>rc\<close> stays unassigned only when the body never ran; when it ends on a failure, no
  \<^verbatim>\<open>gps_stream\<close> call was made, and when it ends on a success one was.
\<close>

lemma main_for_result:
  assumes "main_for p c i rc opens w = (oc, opens', w')"
  shows "\<exists>new. trace w' = trace w @ new \<and>
           (\<exists>j. sleeps new = replicate j (unsigned_int p (retry_sleep c))) \<and>
           clock_sets new = [] \<and>
           (oc = Pending \<or> (\<exists>v. oc = Return v)) \<and>
           (oc = Return None \<longrightarrow> rc = None \<and> num_retries c < i) \<and>
           (\<forall>r. oc = Return (Some r) \<and> r < 0 \<longrightarrow> Gps_stream \<notin> set new) \<and>
           (\<forall>r. oc = Return (Some r) \<and> 0 \<le> r \<and> (\<forall>q. rc = Some q \<longrightarrow> q < 0) \<longrightarrow>
                Gps_stream \<in> set new)"
  using assms
proof (induction opens arbitrary: i rc w)
  case Nil
  show ?case
  proof (cases "i \<le> num_retries c")
    case False
    with Nil have "oc = Return rc" "w' = w" by (simp_all add: main_for_done)
    with False show ?thesis
      by (intro exI [of _ "[]"]) (auto intro: exI [of _ 0])
  next
    case True
    with Nil have "oc = Pending"
      "w' = emit (Gps_open (host c) (port c)) (emit (Printf (Attempt i (host c))) w)"
      by (simp_all add: main_for_pending)
    then show ?thesis
      by (intro exI [of _ "[Printf (Attempt i (host c)), Gps_open (host c) (port c)]"])
        (auto intro: exI [of _ 0])
  qed
next
  case (Cons r rs)
  show ?case
  proof (cases "i \<le> num_retries c")
    case False
    with Cons.prems have "oc = Return rc" "w' = w" by (simp_all add: main_for_done)
    with False show ?thesis
      by (intro exI [of _ "[]"]) (auto intro: exI [of _ 0])
  next
    case True
    let ?w0 = "emit (Printf (Attempt i (host c))) w"
    show ?thesis
    proof (cases "r = 0")
      case r0: True
      with True Cons.prems have "oc = Return (Some 0)"
        "w' = emit Gps_stream (emit (Syslog LOG_INFO Reconnected)
                (emit (Gps_open (host c) (port c)) ?w0))"
        by (simp_all add: main_for_success_step)
      then show ?thesis
        by (intro exI [of _ "[Printf (Attempt i (host c)), Gps_open (host c) (port c),
              Syslog LOG_INFO Reconnected, Gps_stream]"]) (auto intro: exI [of _ 0])
    next
      case False
      let ?s = "unsigned_int p (retry_sleep c)"
      let ?w1 = "emit (Sleep ?s) (emit (Gps_open (host c) (port c)) ?w0)"
      let ?x = "[Printf (Attempt i (host c)), Gps_open (host c) (port c), Sleep ?s]"
      from False True Cons.prems have
        "main_for p c (int_inc p i) (Some (- 1)) rs ?w1 = (oc, opens', w')"
        by (simp add: main_for_failure_step)
      from Cons.IH [OF this] obtain n2 where
        n2: "trace w' = trace ?w1 @ n2" "\<exists>j. sleeps n2 = replicate j ?s"
            "clock_sets n2 = []" "oc = Pending \<or> (\<exists>v. oc = Return v)"
            "oc \<noteq> Return None"
            "\<forall>r. oc = Return (Some r) \<and> r < 0 \<longrightarrow> Gps_stream \<notin> set n2"
            "\<forall>r. oc = Return (Some r) \<and> 0 \<le> r \<longrightarrow> Gps_stream \<in> set n2"
        by auto
      from n2(2) obtain j where j: "sleeps n2 = replicate j ?s" by blast
      have t: "trace w' = trace w @ (?x @ n2)" using n2 by simp
      have s: "\<exists>j. sleeps (?x @ n2) = replicate j ?s"
        using j by (intro exI [of _ "Suc j"]) simp
      have cs: "clock_sets (?x @ n2) = []" using n2 by simp
      have f: "\<forall>r. oc = Return (Some r) \<and> r < 0 \<longrightarrow> Gps_stream \<notin> set (?x @ n2)"
        using n2(6) by auto
      have g: "\<forall>r. oc = Return (Some r) \<and> 0 \<le> r \<and> (\<forall>q. rc = Some q \<longrightarrow> q < 0) \<longrightarrow>
              Gps_stream \<in> set (?x @ n2)"
        using n2(7) by auto
      from t s cs n2(4) n2(5) f g show ?thesis by blast
    qed
  qed
qed

text \<open>
  When the counter cannot reach \<^verbatim>\<open>INT_MAX\<close>, a loop that ends on a failure has called
  \<^verbatim>\<open>gps_open\<close> once for every value of the counter up to the bound.
\<close>

lemma main_for_exhaust_count:
  assumes "main_for p c i rc opens w = (Return (Some r), opens', w')" and "r < 0"
    and "INT_MAX p < i \<or> num_retries c < INT_MAX p"
  shows "connects (trace w') = connects (trace w) + nat (num_retries c + 1 - i)"
  using assms(1,3)
proof (induction opens arbitrary: i rc w)
  case Nil
  then show ?case
    by (cases "i \<le> num_retries c") (auto simp: main_for_pending main_for_done)
next
  case (Cons x xs)
  show ?case
  proof (cases "i \<le> num_retries c")
    case False
    with Cons.prems show ?thesis by (simp add: main_for_done)
  next
    case True
    show ?thesis
    proof (cases "x = 0")
      case x0: True
      with True Cons.prems assms(2) show ?thesis
        by (simp add: main_for_success_step)
    next
      case False
      let ?w1 = "emit (Sleep (unsigned_int p (retry_sleep c)))
                   (emit (Gps_open (host c) (port c)) (emit (Printf (Attempt i (host c))) w))"
      from True Cons.prems(2) have ne: "i \<noteq> INT_MAX p" by auto
      with False True Cons.prems(1) have
        "main_for p c (i + 1) (Some (- 1)) xs ?w1 = (Return (Some r), opens', w')"
        by (simp add: main_for_failure_step int_inc_below)
      moreover from Cons.prems(2) have "INT_MAX p < i + 1 \<or> num_retries c < INT_MAX p"
        by auto
      ultimately have
        "connects (trace w') = connects (trace ?w1) + nat (num_retries c + 1 - (i + 1))"
        by (rule Cons.IH)
      with True show ?thesis by simp
    qed
  qed
qed

text \<open>
  When the bound is \<^verbatim>\<open>INT_MAX\<close> or more, the counter wraps around before it passes the
  bound: the loop never ends on a failure and never leaves \<^verbatim>\<open>rc\<close> unassigned.
\<close>

lemma main_for_never_exhausts:
  assumes "main_for p c i rc opens w = (oc, opens', w')"
    and "0 \<le> INT_MAX p" and "i \<le> INT_MAX p" and "INT_MAX p \<le> num_retries c"
  shows "oc = Pending \<or> oc = Return (Some 0)"
  using assms(1,3)
proof (induction opens arbitrary: i rc w)
  case Nil
  with assms(4) show ?case by (simp add: main_for_pending)
next
  case (Cons x xs)
  from Cons.prems(2) assms(4) have le: "i \<le> num_retries c" by simp
  show ?case
  proof (cases "x = 0")
    case True
    with le Cons.prems(1) show ?thesis by (simp add: main_for_success_step)
  next
    case False
    let ?w1 = "emit (Sleep (unsigned_int p (retry_sleep c)))
                 (emit (Gps_open (host c) (port c)) (emit (Printf (Attempt i (host c))) w))"
    from False le Cons.prems(1) have
      "main_for p c (int_inc p i) (Some (- 1)) xs ?w1 = (oc, opens', w')"
      by (simp add: main_for_failure_step)
    moreover from Cons.prems(2) assms(2) have "int_inc p i \<le> INT_MAX p"
      by (simp add: int_inc_def)
    ultimately show ?thesis by (rule Cons.IH)
  qed
qed

text \<open>The \<^verbatim>\<open>while\<close> loop reads only the host and the port of the configuration.\<close>

lemma main_while_config:
  assumes "host c' = host c" and "port c' = port c"
  shows "main_while p c' st opens fd w = main_while p c st opens fd w"
  using assms
proof (induction p c st opens fd w rule: main_while.induct)
  case (1 p c opens fd w)
  obtain o1 fd1 w1 where ml: "my_gps_mainloop (INT_MAX p) (callback p) fd w = (o1, fd1, w1)"
    by (cases "my_gps_mainloop (INT_MAX p) (callback p) fd w")
  show ?case
  proof (cases o1)
    case (Return rc)
    show ?thesis
    proof (cases "rc < 1")
      case True
      from "1.IH"(1) [OF ml [symmetric] Return refl True "1.prems"] Return True ml
      show ?thesis
        by (subst main_while.simps, subst (2) main_while.simps) simp
    next
      case False
      from "1.IH"(2) [OF ml [symmetric] Return refl False "1.prems"] Return False ml
      show ?thesis
        by (subst main_while.simps, subst (2) main_while.simps) simp
    qed
  qed (use ml in \<open>(subst main_while.simps, subst (2) main_while.simps, simp)+\<close>)
next
  case (2 p c opens fd w)
  obtain o1 os1 w1 where ar: "attempt_reconnect (host c) (port c) opens w = (o1, os1, w1)"
    by (cases "attempt_reconnect (host c) (port c) opens w")
  show ?case
  proof (cases o1)
    case (Return rc)
    show ?thesis
    proof (cases "rc < 0")
      case True
      from "2.IH"(1) [OF ar [symmetric] Return refl True "2.prems"] Return True ar "2.prems"
      show ?thesis
        by (subst main_while.simps, subst (2) main_while.simps) simp
    next
      case False
      from "2.IH"(2) [OF ar [symmetric] Return refl False "2.prems"] Return False ar "2.prems"
      show ?thesis
        by (subst main_while.simps, subst (2) main_while.simps) simp
    qed
  qed (use ar "2.prems" in \<open>(subst main_while.simps, subst (2) main_while.simps, simp)+\<close>)
qed

subsection \<open>Whole runs\<close>

text \<open>
  \<^verbatim>\<open>osmo_daemonize\<close> makes no gpsd or clock call, and it ends the process only in the
  parent of a successful \<^verbatim>\<open>fork\<close>, with status 0.
\<close>

lemma osmo_daemonize_result:
  assumes "osmo_daemonize p w = (oc, w')"
  shows "\<exists>new. trace w' = trace w @ new \<and> clock_sets new = [] \<and>
           ((\<exists>v. oc = Return v) \<or>
            (oc = Exited 0 \<and> getppid p \<noteq> 1 \<and> 0 < fork p \<and> new = [Getppid, Fork]))"
  using assms by (auto simp: osmo_daemonize_def Let_def split: if_splits)

text \<open>
  The five ways a run of \<^verbatim>\<open>main\<close> on a finite script can stand: the unassigned \<^verbatim>\<open>rc\<close> was
  read, a library call is waiting, the startup attempts are exhausted, the process is the
  parent of the detaching \<^verbatim>\<open>fork\<close> and has exited, or the clock was committed.
\<close>

lemma main_result:
  assumes "main p opts args opens fd = (oc, w')"
  shows "(oc = Undefined \<and> clock_sets (trace w') = [] \<and>
            num_retries (parse_args p opts args) < 1) \<or>
         (oc = Pending \<and> clock_sets (trace w') = []) \<or>
         (oc = Exited EXIT_FAILURE \<and> clock_sets (trace w') = [] \<and>
            Gps_stream \<notin> set (trace w') \<and>
            connects (trace w') = nat (num_retries (parse_args p opts args))) \<or>
         (oc = Exited 0 \<and> clock_sets (trace w') = [] \<and>
            no_detach (parse_args p opts args) = 0 \<and> getppid p \<noteq> 1 \<and> 0 < fork p \<and>
            Gps_stream \<in> set (trace w') \<and> last (trace w') = Fork) \<or>
         (\<exists>code. oc = Exited code \<and> commit_run p (trace w') code)"
proof -
  let ?c = "parse_args p opts args"
  let ?w0 = "\<lparr>gpsdata = \<lparr>gps_set = 0, fix_time = Finite 0, status = 0, satellites_used = 0\<rparr>,
              trace = [Openlog]\<rparr>"
  obtain o1 os1 w1 where mf: "main_for p ?c 1 None opens ?w0 = (o1, os1, w1)"
    by (cases "main_for p ?c 1 None opens ?w0")
  from main_for_result [OF mf] obtain n1 where
    n1: "trace w1 = [Openlog] @ n1" "clock_sets n1 = []"
        "o1 = Pending \<or> (\<exists>v. o1 = Return v)"
        "o1 = Return None \<longrightarrow> num_retries ?c < 1"
        "\<forall>r. o1 = Return (Some r) \<and> r < 0 \<longrightarrow> Gps_stream \<notin> set n1"
        "\<forall>r. o1 = Return (Some r) \<and> 0 \<le> r \<longrightarrow> Gps_stream \<in> set n1"
    by auto
  have count: "connects (trace w1) = nat (num_retries ?c)" if "o1 = Return (Some r)" "r < 0" for r
  proof (cases "INT_MAX p < 1 \<or> num_retries ?c < INT_MAX p")
    case True
    from that mf have "main_for p ?c 1 None opens ?w0 = (Return (Some r), os1, w1)" by simp
    from main_for_exhaust_count [OF this that(2) True] show ?thesis by simp
  next
    case False
    then have "0 \<le> INT_MAX p" "1 \<le> INT_MAX p" "INT_MAX p \<le> num_retries ?c" by simp_all
    from main_for_never_exhausts [OF mf this] that show ?thesis by simp
  qed
  have loop: ?thesis
    if run: "main_while p ?c S_CONNECTED os1 fd wl = (oc, w')" and cs: "clock_sets (trace wl) = []"
    for wl
  proof -
    from main_while_result [OF run] obtain n2 where
      n2: "trace w' = trace wl @ n2"
          "(oc = Pending \<and> clock_sets n2 = []) \<or>
           (\<exists>code. oc = Exited code \<and> commit_run p n2 code)"
      by blast
    from n2(2) show ?thesis
    proof
      assume "oc = Pending \<and> clock_sets n2 = []"
      with n2(1) cs show ?thesis by simp
    next
      assume "\<exists>code. oc = Exited code \<and> commit_run p n2 code"
      then obtain code where e: "oc = Exited code" "commit_run p n2 code" by blast
      from commit_run_prepend [OF e(2) cs] n2(1) e(1) show ?thesis
        by simp
    qed
  qed
  from n1(3) show ?thesis
  proof
    assume "o1 = Pending"
    with mf assms have "oc = Pending" "w' = w1" by (simp_all add: main_def)
    with n1 show ?thesis by simp
  next
    assume "\<exists>v. o1 = Return v"
    then obtain v where v: "o1 = Return v" by blast
    show ?thesis
    proof (cases v)
      case None
      with v mf assms have "oc = Undefined" "w' = w1" by (simp_all add: main_def)
      with None v n1 show ?thesis by simp
    next
      case (Some r)
      show ?thesis
      proof (cases "r < 0")
        case True
        with Some v mf assms have
          "oc = Exited EXIT_FAILURE" "w' = emit Closelog (emit (Syslog LOG_ERR No_gpsd) w1)"
          by (simp_all add: main_def)
        with True Some v n1 count [of r] show ?thesis by simp
      next
        case False
        with Some v n1(6) have gs: "Gps_stream \<in> set n1" by simp
        show ?thesis
        proof (cases "no_detach ?c = 0")
          case nd: False
          with False Some v mf assms have "main_while p ?c S_CONNECTED os1 fd w1 = (oc, w')"
            by (simp add: main_def Let_def)
          from loop [OF this] n1 show ?thesis by simp
        next
          case nd: True
          obtain o3 w3 where od: "osmo_daemonize p w1 = (o3, w3)"
            by (cases "osmo_daemonize p w1")
          from osmo_daemonize_result [OF od] obtain n3 where
            n3: "trace w3 = trace w1 @ n3" "clock_sets n3 = []"
                "(\<exists>v. o3 = Return v) \<or>
                 (o3 = Exited 0 \<and> getppid p \<noteq> 1 \<and> 0 < fork p \<and> n3 = [Getppid, Fork])"
            by blast
          from n3(3) show ?thesis
          proof
            assume "\<exists>v. o3 = Return v"
            then obtain u where "o3 = Return u" by blast
            with nd od False Some v mf assms have
              "main_while p ?c S_CONNECTED os1 fd w3 = (oc, w')"
              by (simp add: main_def Let_def)
            from loop [OF this] n1 n3 show ?thesis by simp
          next
            assume e: "o3 = Exited 0 \<and> getppid p \<noteq> 1 \<and> 0 < fork p \<and> n3 = [Getppid, Fork]"
            with nd od False Some v mf assms have "oc = Exited 0" "w' = w3"
              by (simp_all add: main_def Let_def)
            with e nd n1 n3 gs show ?thesis by simp
          qed
        qed
      qed
    qed
  qed
qed

text \<open>The last \<^verbatim>\<open>-n\<close> and \<^verbatim>\<open>-s\<close> options win.\<close>

lemma parse_args_last_option:
  "num_retries (parse_args p (opts @ [Opt_n n]) args) = n"
  "retry_sleep (parse_args p (opts @ [Opt_s s]) args) = s"
  by (simp_all add: parse_args_def Let_def split: list.splits)

text \<open>The equations that evaluate a run on a concrete script.\<close>

lemmas run_simps =
  main_def Let_def parse_args_def demo_platform_def unprivileged_platform_def
  foreground_platform_def demo_fix_def osmo_daemonize_def
  main_for_failure_step main_for_success_step main_for_done main_while.simps
  attempt_reconnect_def callback_def emit_def strip_lf_def double_to_time_t_def
  trunc_toward_zero_def int_inc_def unsigned_int_def
  EXIT_SUCCESS_def EXIT_FAILURE_def RETRY_SLEEP_def NUM_RETRIES_def

text \<open>
  C2. An accepted report makes \<^verbatim>\<open>callback\<close> call \<^verbatim>\<open>settimeofday\<close> once and then close the
  connection, write one log line and \<^verbatim>\<open>exit\<close>: the notice with the committed time and
  \<^verbatim>\<open>EXIT_SUCCESS\<close> = 0 when \<^verbatim>\<open>settimeofday\<close> returned 0, the error line with \<^verbatim>\<open>errno\<close> and
  \<^verbatim>\<open>EXIT_FAILURE\<close> \<open>\<noteq>\<close> 0 otherwise. In every run of \<^verbatim>\<open>main\<close> the clock is either never set, or it
  is set exactly once and these calls are the last ones of the process: no second
  \<^verbatim>\<open>settimeofday\<close>, no further \<^verbatim>\<open>gps_read\<close>.
\<close>

theorem clock_commit_once_then_exit:
  "(gps_set (gpsdata w) AND TIME_SET p \<noteq> 0 \<and> status (gpsdata w) \<noteq> 0 \<and>
    satellites_used (gpsdata w) \<noteq> 0 \<longrightarrow>
      (\<exists>pre tv v'. clock_sets pre = [] \<and>
         callback p w =
           (Exited (if settimeofday p tv = 0 then EXIT_SUCCESS else EXIT_FAILURE), v') \<and>
         trace v' = trace w @ pre @
           [Settimeofday tv, Gps_close,
            if settimeofday p tv = 0
            then Syslog LOG_NOTICE
                   (Set_rtc_ok (strip_lf (case ctime p (tv_sec tv) of
                                            None \<Rightarrow> ''<unknown>'' | Some s \<Rightarrow> s)))
            else Syslog LOG_ERR Set_rtc_error,
            Closelog])) \<and>
   (main p opts args opens fd = (oc, w') \<longrightarrow>
      clock_sets (trace w') = [] \<or>
      (\<exists>pre tv. clock_sets pre = [] \<and>
         trace w' = pre @
           [Settimeofday tv, Gps_close,
            if settimeofday p tv = 0
            then Syslog LOG_NOTICE
                   (Set_rtc_ok (strip_lf (case ctime p (tv_sec tv) of
                                            None \<Rightarrow> ''<unknown>'' | Some s \<Rightarrow> s)))
            else Syslog LOG_ERR Set_rtc_error,
            Closelog] \<and>
         oc = Exited (if settimeofday p tv = 0 then EXIT_SUCCESS else EXIT_FAILURE))) \<and>
   EXIT_SUCCESS = 0 \<and> EXIT_FAILURE \<noteq> 0"
proof (intro conjI impI)
  assume "gps_set (gpsdata w) AND TIME_SET p \<noteq> 0 \<and> status (gpsdata w) \<noteq> 0 \<and>
    satellites_used (gpsdata w) \<noteq> 0"
  with callback_accepts [of w p] obtain code new v' where
    "callback p w = (Exited code, v')" "trace v' = trace w @ new" "commit_run p new code"
    by blast
  then show "\<exists>pre tv v'. clock_sets pre = [] \<and>
         callback p w =
           (Exited (if settimeofday p tv = 0 then EXIT_SUCCESS else EXIT_FAILURE), v') \<and>
         trace v' = trace w @ pre @
           [Settimeofday tv, Gps_close,
            if settimeofday p tv = 0
            then Syslog LOG_NOTICE
                   (Set_rtc_ok (strip_lf (case ctime p (tv_sec tv) of
                                            None \<Rightarrow> ''<unknown>'' | Some s \<Rightarrow> s)))
            else Syslog LOG_ERR Set_rtc_error,
            Closelog]"
    unfolding commit_run_def by blast
next
  assume "main p opts args opens fd = (oc, w')"
  from main_result [OF this] have
    "clock_sets (trace w') = [] \<or> (\<exists>code. oc = Exited code \<and> commit_run p (trace w') code)"
    by blast
  then show "clock_sets (trace w') = [] \<or>
      (\<exists>pre tv. clock_sets pre = [] \<and>
         trace w' = pre @
           [Settimeofday tv, Gps_close,
            if settimeofday p tv = 0
            then Syslog LOG_NOTICE
                   (Set_rtc_ok (strip_lf (case ctime p (tv_sec tv) of
                                            None \<Rightarrow> ''<unknown>'' | Some s \<Rightarrow> s)))
            else Syslog LOG_ERR Set_rtc_error,
            Closelog] \<and>
         oc = Exited (if settimeofday p tv = 0 then EXIT_SUCCESS else EXIT_FAILURE))"
    unfolding commit_run_def by blast
qed (simp_all add: EXIT_SUCCESS_def EXIT_FAILURE_def)

theorem clock_commit_once_then_exit_witness:
  "gps_set (gpsdata \<lparr>gpsdata = demo_fix, trace = []\<rparr>) AND TIME_SET demo_platform \<noteq> 0 \<and>
   status (gpsdata \<lparr>gpsdata = demo_fix, trace = []\<rparr>) \<noteq> 0 \<and>
   satellites_used (gpsdata \<lparr>gpsdata = demo_fix, trace = []\<rparr>) \<noteq> 0 \<and>
   fst (callback demo_platform \<lparr>gpsdata = demo_fix, trace = []\<rparr>) = Exited 0 \<and>
   main demo_platform [Opt_d] [] [0] [Data 48 demo_fix] =
     (Exited 0,
      \<lparr>gpsdata = demo_fix,
       trace = [Openlog, Printf (Attempt 1 ''localhost''), Gps_open ''localhost'' ''2947'',
                Syslog LOG_INFO Reconnected, Gps_stream, Gps_waiting 2147483647, Gps_read,
                Syslog LOG_DEBUG (Report ''Tue Nov 14 22:13:20 2023'' 6 1 4),
                Settimeofday \<lparr>tv_sec = 1700000000, tv_usec = 0\<rparr>, Gps_close,
                Syslog LOG_NOTICE (Set_rtc_ok ''Tue Nov 14 22:13:20 2023''), Closelog]\<rparr>) \<and>
   main unprivileged_platform [Opt_d] [] [0] [Data 48 demo_fix, Data 48 demo_fix] =
     (Exited 1,
      \<lparr>gpsdata = demo_fix,
       trace = [Openlog, Printf (Attempt 1 ''localhost''), Gps_open ''localhost'' ''2947'',
                Syslog LOG_INFO Reconnected, Gps_stream, Gps_waiting 2147483647, Gps_read,
                Syslog LOG_DEBUG (Report ''Tue Nov 14 22:13:20 2023'' 6 1 4),
                Settimeofday \<lparr>tv_sec = 1700000000, tv_usec = 0\<rparr>, Gps_close,
                Syslog LOG_ERR Set_rtc_error, Closelog]\<rparr>) \<and>
   EXIT_SUCCESS = 0 \<and> EXIT_FAILURE \<noteq> 0"
proof -
  let ?w = "\<lparr>gpsdata = demo_fix, trace = []\<rparr>"
  have h: "gps_set (gpsdata ?w) AND TIME_SET demo_platform \<noteq> 0 \<and>
      status (gpsdata ?w) \<noteq> 0 \<and> satellites_used (gpsdata ?w) \<noteq> 0"
    by (simp add: demo_platform_def demo_fix_def)
  have a: "main demo_platform [Opt_d] [] [0] [Data 48 demo_fix] =
     (Exited 0,
      \<lparr>gpsdata = demo_fix,
       trace = [Openlog, Printf (Attempt 1 ''localhost''), Gps_open ''localhost'' ''2947'',
                Syslog LOG_INFO Reconnected, Gps_stream, Gps_waiting 2147483647, Gps_read,
                Syslog LOG_DEBUG (Report ''Tue Nov 14 22:13:20 2023'' 6 1 4),
                Settimeofday \<lparr>tv_sec = 1700000000, tv_usec = 0\<rparr>, Gps_close,
                Syslog LOG_NOTICE (Set_rtc_ok ''Tue Nov 14 22:13:20 2023''), Closelog]\<rparr>)"
    by (simp add: run_simps)
  have b: "main unprivileged_platform [Opt_d] [] [0] [Data 48 demo_fix, Data 48 demo_fix] =
     (Exited 1,
      \<lparr>gpsdata = demo_fix,
       trace = [Openlog, Printf (Attempt 1 ''localhost''), Gps_open ''localhost'' ''2947'',
                Syslog LOG_INFO Reconnected, Gps_stream, Gps_waiting 2147483647, Gps_read,
                Syslog LOG_DEBUG (Report ''Tue Nov 14 22:13:20 2023'' 6 1 4),
                Settimeofday \<lparr>tv_sec = 1700000000, tv_usec = 0\<rparr>, Gps_close,
                Syslog LOG_ERR Set_rtc_error, Closelog]\<rparr>)"
    by (simp add: run_simps)
  note t = clock_commit_once_then_exit [where p = demo_platform and w = ?w]
  from t [THEN conjunct1, rule_format, OF h] have
    c: "fst (callback demo_platform ?w) = Exited 0"
    by (auto simp: demo_platform_def EXIT_SUCCESS_def)
  from h a b c t [THEN conjunct2, THEN conjunct2] show ?thesis
    by simp
qed

text \<open>
  C8, as the code has it. In the reconnecting state any number of failed \<^verbatim>\<open>gps_open\<close>
  calls leaves the machine in the reconnecting state, each failure followed by a sleep of
  \<^verbatim>\<open>RETRY_SLEEP\<close> seconds, and after them the process is inside the next \<^verbatim>\<open>gps_open\<close>: it
  has not exited. The \<^verbatim>\<open>while\<close> loop exits only through a clock commit. \<^verbatim>\<open>main\<close> exits only
  through a clock commit, or with \<^verbatim>\<open>EXIT_FAILURE\<close> when all \<^verbatim>\<open>num_retries\<close> startup attempts
  failed and no connection was ever established, or with status 0 in the foreground parent
  of the \<^verbatim>\<open>fork\<close> by which the program detaches after its first connection.
\<close>

theorem reconnects_forever:
  "(0 \<notin> set fails \<longrightarrow>
      main_while p c S_RECONNECT (fails @ rest) fd w =
        main_while p c S_RECONNECT rest fd
          (w\<lparr>trace := trace w @
             concat (replicate (length fails)
               [Gps_open (host c) (port c), Sleep RETRY_SLEEP])\<rparr>) \<and>
      main_while p c S_RECONNECT fails fd w =
        (Pending,
         w\<lparr>trace := trace w @
             concat (replicate (length fails)
               [Gps_open (host c) (port c), Sleep RETRY_SLEEP]) @
             [Gps_open (host c) (port c)]\<rparr>)) \<and>
   (main_while p c st opens fd w = (oc, w') \<longrightarrow>
      oc = Pending \<or>
      (\<exists>code tv. oc = Exited code \<and> clock_sets (trace w') = clock_sets (trace w) @ [tv])) \<and>
   (main p opts args opens fd = (Exited code, v') \<longrightarrow>
      (\<exists>tv. clock_sets (trace v') = [tv]) \<or>
      (code = EXIT_FAILURE \<and> clock_sets (trace v') = [] \<and> Gps_stream \<notin> set (trace v') \<and>
       connects (trace v') = nat (num_retries (parse_args p opts args))) \<or>
      (code = 0 \<and> clock_sets (trace v') = [] \<and> no_detach (parse_args p opts args) = 0 \<and>
       0 < fork p \<and> Gps_stream \<in> set (trace v') \<and> last (trace v') = Fork))"
proof (intro conjI impI)
  assume f: "0 \<notin> set fails"
  from main_while_reconnect_failures [OF f]
  show "main_while p c S_RECONNECT (fails @ rest) fd w =
        main_while p c S_RECONNECT rest fd
          (w\<lparr>trace := trace w @
             concat (replicate (length fails)
               [Gps_open (host c) (port c), Sleep RETRY_SLEEP])\<rparr>)" .
  from main_while_reconnect_failures [OF f, of p c "[]" fd w]
  show "main_while p c S_RECONNECT fails fd w =
        (Pending,
         w\<lparr>trace := trace w @
             concat (replicate (length fails)
               [Gps_open (host c) (port c), Sleep RETRY_SLEEP]) @
             [Gps_open (host c) (port c)]\<rparr>)"
    by (simp add: main_while_pending emit_def)
next
  assume "main_while p c st opens fd w = (oc, w')"
  from main_while_result [OF this] obtain new where
    n: "trace w' = trace w @ new"
       "(oc = Pending \<and> clock_sets new = []) \<or>
        (\<exists>code. oc = Exited code \<and> commit_run p new code)"
    by blast
  from n(2) show "oc = Pending \<or>
      (\<exists>code tv. oc = Exited code \<and> clock_sets (trace w') = clock_sets (trace w) @ [tv])"
  proof
    assume "oc = Pending \<and> clock_sets new = []"
    then show ?thesis by simp
  next
    assume "\<exists>code. oc = Exited code \<and> commit_run p new code"
    then obtain code where e: "oc = Exited code" "commit_run p new code" by blast
    from commit_run_clock_sets [OF e(2)] obtain tv where "clock_sets new = [tv]" by blast
    with n(1) e(1) show ?thesis by simp
  qed
next
  assume "main p opts args opens fd = (Exited code, v')"
  from main_result [OF this] have
    "(code = EXIT_FAILURE \<and> clock_sets (trace v') = [] \<and> Gps_stream \<notin> set (trace v') \<and>
       connects (trace v') = nat (num_retries (parse_args p opts args))) \<or>
     (code = 0 \<and> clock_sets (trace v') = [] \<and> no_detach (parse_args p opts args) = 0 \<and>
       0 < fork p \<and> Gps_stream \<in> set (trace v') \<and> last (trace v') = Fork) \<or>
     commit_run p (trace v') code"
    by auto
  then show "(\<exists>tv. clock_sets (trace v') = [tv]) \<or>
      (code = EXIT_FAILURE \<and> clock_sets (trace v') = [] \<and> Gps_stream \<notin> set (trace v') \<and>
       connects (trace v') = nat (num_retries (parse_args p opts args))) \<or>
      (code = 0 \<and> clock_sets (trace v') = [] \<and> no_detach (parse_args p opts args) = 0 \<and>
       0 < fork p \<and> Gps_stream \<in> set (trace v') \<and> last (trace v') = Fork)"
    using commit_run_clock_sets [of p "trace v'" code] by blast
qed

theorem reconnects_forever_witness:
  "0 \<notin> set [- 1, - 1, - 1 :: int] \<and>
   main_while demo_platform (parse_args demo_platform [] []) S_RECONNECT [- 1, - 1, - 1] []
       \<lparr>gpsdata = demo_fix, trace = []\<rparr> =
     (Pending,
      \<lparr>gpsdata = demo_fix,
       trace = [Gps_open ''localhost'' ''2947'', Sleep 1, Gps_open ''localhost'' ''2947'', Sleep 1,
                Gps_open ''localhost'' ''2947'', Sleep 1, Gps_open ''localhost'' ''2947'']\<rparr>) \<and>
   fst (main demo_platform [Opt_d] [] [0, - 1, 0] [Data (- 1) demo_fix, Data 48 demo_fix]) =
     Exited 0 \<and>
   clock_sets (trace (snd (main demo_platform [Opt_d] [] [0, - 1, 0]
       [Data (- 1) demo_fix, Data 48 demo_fix]))) = [\<lparr>tv_sec = 1700000000, tv_usec = 0\<rparr>] \<and>
   sleeps (trace (snd (main demo_platform [Opt_d] [] [0, - 1, 0]
       [Data (- 1) demo_fix, Data 48 demo_fix]))) = [1]"
proof -
  have f: "0 \<notin> set [- 1, - 1, - 1 :: int]" by simp
  note a = reconnects_forever [where fails = "[- 1, - 1, - 1]" and p = demo_platform
      and c = "parse_args demo_platform [] []" and fd = "[]"
      and w = "\<lparr>gpsdata = demo_fix, trace = []\<rparr>",
      THEN conjunct1, rule_format, OF f, THEN conjunct2]
  have b: "main demo_platform [Opt_d] [] [0, - 1, 0] [Data (- 1) demo_fix, Data 48 demo_fix] =
     (Exited 0,
      \<lparr>gpsdata = demo_fix,
       trace = [Openlog, Printf (Attempt 1 ''localhost''), Gps_open ''localhost'' ''2947'',
                Syslog LOG_INFO Reconnected, Gps_stream, Gps_waiting 2147483647, Gps_read,
                Syslog LOG_ERR (Connection_closed (- 1)), Gps_close,
                Gps_open ''localhost'' ''2947'', Sleep 1,
                Gps_open ''localhost'' ''2947'', Syslog LOG_INFO Reconnected, Gps_stream,
                Gps_waiting 2147483647, Gps_read,
                Syslog LOG_DEBUG (Report ''Tue Nov 14 22:13:20 2023'' 6 1 4),
                Settimeofday \<lparr>tv_sec = 1700000000, tv_usec = 0\<rparr>, Gps_close,
                Syslog LOG_NOTICE (Set_rtc_ok ''Tue Nov 14 22:13:20 2023''), Closelog]\<rparr>)"
    by (simp add: run_simps)
  from f a b show ?thesis
    by (simp add: parse_args_def demo_platform_def RETRY_SLEEP_def numeral_3_eq_3)
qed

text \<open>
  C8 as the specification states it does not hold: without \<^verbatim>\<open>--no-detach\<close> the process that was started exits
  with status 0 inside \<^verbatim>\<open>osmo_daemonize\<close> as soon as the first connection is made and the
  \<^verbatim>\<open>fork\<close> has succeeded. That exit is neither a clock commit nor the exhaustion of the
  startup attempts.
\<close>

theorem foreground_exit_counterexample:
  "main foreground_platform [] [] [0] [Data 48 demo_fix] =
     (Exited 0,
      \<lparr>gpsdata = \<lparr>gps_set = 0, fix_time = Finite 0, status = 0, satellites_used = 0\<rparr>,
       trace = [Openlog, Printf (Attempt 1 ''localhost''), Gps_open ''localhost'' ''2947'',
                Syslog LOG_INFO Reconnected, Gps_stream, Getppid, Fork]\<rparr>) \<and>
   clock_sets (trace (snd (main foreground_platform [] [] [0] [Data 48 demo_fix]))) = [] \<and>
   connects (trace (snd (main foreground_platform [] [] [0] [Data 48 demo_fix]))) = 1 \<and>
   NUM_RETRIES = 60 \<and> EXIT_FAILURE \<noteq> 0"
  by (simp add: run_simps)

text \<open>
  C9. Every sleep of the \<^verbatim>\<open>while\<close> loop, which holds the reconnect attempts, lasts
  \<^verbatim>\<open>RETRY_SLEEP\<close> = 1 second, and the loop does the same for every value of \<^verbatim>\<open>retry_sleep\<close>.
  The value of the \<^verbatim>\<open>--retry-sleep\<close> option becomes \<^verbatim>\<open>retry_sleep\<close>, which is the length of
  the sleeps of the startup loop, as \<^verbatim>\<open>sleep\<close> receives it.
\<close>

theorem reconnect_sleep_is_constant:
  "(main_while p c st opens fd w = (oc, w') \<longrightarrow>
      (\<exists>k. sleeps (trace w') = sleeps (trace w) @ replicate k RETRY_SLEEP)) \<and>
   RETRY_SLEEP = 1 \<and>
   main_while p (c\<lparr>retry_sleep := s\<rparr>) st opens fd w = main_while p c st opens fd w \<and>
   retry_sleep (parse_args p (opts @ [Opt_s s]) args) = s \<and>
   (main_for p c i rc opens w = (oc0, opens', v') \<longrightarrow>
      (\<exists>j. sleeps (trace v') =
             sleeps (trace w) @ replicate j (unsigned_int p (retry_sleep c))))"
proof (intro conjI impI)
  assume "main_while p c st opens fd w = (oc, w')"
  from main_while_result [OF this]
  show "\<exists>k. sleeps (trace w') = sleeps (trace w) @ replicate k RETRY_SLEEP"
    by auto
next
  assume "main_for p c i rc opens w = (oc0, opens', v')"
  from main_for_result [OF this]
  show "\<exists>j. sleeps (trace v') =
             sleeps (trace w) @ replicate j (unsigned_int p (retry_sleep c))"
    by auto
next
  show "main_while p (c\<lparr>retry_sleep := s\<rparr>) st opens fd w = main_while p c st opens fd w"
    by (rule main_while_config) simp_all
qed (simp_all add: RETRY_SLEEP_def parse_args_last_option)

theorem reconnect_sleep_is_constant_witness:
  "sleeps (trace (snd (main demo_platform [Opt_d, Opt_s 30] [] [- 1, - 1, 0, - 1, - 1, 0]
       [NoData, Data 48 demo_fix]))) = [30, 30, 1, 1] \<and>
   main_while demo_platform (parse_args demo_platform [Opt_s 30] []) S_RECONNECT [- 1, - 1] []
       \<lparr>gpsdata = demo_fix, trace = []\<rparr> =
     (Pending,
      \<lparr>gpsdata = demo_fix,
       trace = [Gps_open ''localhost'' ''2947'', Sleep 1, Gps_open ''localhost'' ''2947'', Sleep 1,
                Gps_open ''localhost'' ''2947'']\<rparr>) \<and>
   retry_sleep (parse_args demo_platform [Opt_s 30] []) = 30"
proof -
  have a: "main_while demo_platform (parse_args demo_platform [Opt_s 30] []) S_RECONNECT
       [- 1, - 1] [] \<lparr>gpsdata = demo_fix, trace = []\<rparr> =
     (Pending,
      \<lparr>gpsdata = demo_fix,
       trace = [Gps_open ''localhost'' ''2947'', Sleep 1, Gps_open ''localhost'' ''2947'', Sleep 1,
                Gps_open ''localhost'' ''2947'']\<rparr>)"
    by (simp add: run_simps)
  note b = reconnect_sleep_is_constant [where p = demo_platform
      and c = "parse_args demo_platform [Opt_s 30] []" and st = S_RECONNECT
      and opens = "[- 1, - 1]" and fd = "[]" and w = "\<lparr>gpsdata = demo_fix, trace = []\<rparr>"
      and opts = "[]" and args = "[]" and s = 30,
      THEN conjunct1, rule_format, OF a]
  have c: "sleeps (trace (snd (main demo_platform [Opt_d, Opt_s 30] []
       [- 1, - 1, 0, - 1, - 1, 0] [NoData, Data 48 demo_fix]))) = [30, 30, 1, 1]"
    by (simp add: run_simps)
  from a b c show ?thesis
    by (simp add: parse_args_def demo_platform_def)
qed

text \<open>
  C10. With a retry count below 1 the startup loop makes no attempt at all and leaves
  \<^verbatim>\<open>rc\<close> unassigned, and the test \<^verbatim>\<open>rc < 0\<close> that follows reads it: the run of \<^verbatim>\<open>main\<close> is
  undefined after \<^verbatim>\<open>openlog\<close>. With a retry count of at least 1 no run of \<^verbatim>\<open>main\<close> reads an
  unassigned variable. The value of the \<^verbatim>\<open>--num-retries\<close> option becomes the retry count.
\<close>

theorem startup_unassigned_rc:
  "(num_retries (parse_args p opts args) < 1 \<longrightarrow>
      main_for p (parse_args p opts args) 1 None opens w = (Return None, opens, w) \<and>
      main p opts args opens fd =
        (Undefined,
         \<lparr>gpsdata = \<lparr>gps_set = 0, fix_time = Finite 0, status = 0, satellites_used = 0\<rparr>,
          trace = [Openlog]\<rparr>)) \<and>
   (1 \<le> num_retries (parse_args p opts args) \<longrightarrow> fst (main p opts args opens fd) \<noteq> Undefined) \<and>
   num_retries (parse_args p (opts @ [Opt_n n]) args) = n"
proof (intro conjI impI)
  assume "1 \<le> num_retries (parse_args p opts args)"
  with main_result [of p opts args opens fd "fst (main p opts args opens fd)"
      "snd (main p opts args opens fd)"]
  show "fst (main p opts args opens fd) \<noteq> Undefined"
    by auto
qed (simp_all add: main_for_done main_def parse_args_last_option)

theorem startup_unassigned_rc_witness:
  "num_retries (parse_args demo_platform [Opt_n 0] []) < 1 \<and>
   main demo_platform [Opt_n 0] [] [0] [Data 48 demo_fix] =
     (Undefined,
      \<lparr>gpsdata = \<lparr>gps_set = 0, fix_time = Finite 0, status = 0, satellites_used = 0\<rparr>,
       trace = [Openlog]\<rparr>) \<and>
   1 \<le> num_retries (parse_args demo_platform [Opt_n 1] []) \<and>
   fst (main demo_platform [Opt_n 1] [] [0] [Data 48 demo_fix]) = Exited 0"
proof -
  have a: "num_retries (parse_args demo_platform [Opt_n 0] []) < 1"
    and b: "1 \<le> num_retries (parse_args demo_platform [Opt_n 1] [])"
    by (simp_all add: parse_args_def)
  note c = startup_unassigned_rc [where p = demo_platform and opts = "[Opt_n 0]" and args = "[]"
      and opens = "[0]" and fd = "[Data 48 demo_fix]",
      THEN conjunct1, rule_format, OF a, THEN conjunct2]
  note d = startup_unassigned_rc [where p = demo_platform and opts = "[Opt_n 1]" and args = "[]"
      and opens = "[0]" and fd = "[Data 48 demo_fix]",
      THEN conjunct2, THEN conjunct1, rule_format, OF b]
  have e: "fst (main demo_platform [Opt_n 1] [] [0] [Data 48 demo_fix]) = Exited 0"
    by (simp add: run_simps)
  from a b c d e show ?thesis by simp
qed

end
